theory Spec2Isabelle
  imports Complex_Main
begin

section \<open>Floating-point values\<close>

text \<open>
  Python floats and numpy float64 scalars. Finite values are idealised as exact reals;
  the three special values are kept, because the program produces and forwards them.
  Rounding, overflow to infinity and the sign of zero are outside this model (a zero
  divisor is treated as +0).
\<close>

datatype float64 = Fin real | PInf | NInf | NaN

fun fneg :: "float64 \<Rightarrow> float64" where
  "fneg (Fin x) = Fin (- x)"
| "fneg PInf = NInf"
| "fneg NInf = PInf"
| "fneg NaN = NaN"

fun fadd :: "float64 \<Rightarrow> float64 \<Rightarrow> float64" where
  "fadd (Fin x) (Fin y) = Fin (x + y)"
| "fadd NaN _ = NaN"
| "fadd _ NaN = NaN"
| "fadd PInf NInf = NaN"
| "fadd NInf PInf = NaN"
| "fadd PInf _ = PInf"
| "fadd _ PInf = PInf"
| "fadd NInf _ = NInf"
| "fadd _ NInf = NInf"

definition fsub :: "float64 \<Rightarrow> float64 \<Rightarrow> float64" where
  "fsub a b = fadd a (fneg b)"

fun fmul :: "float64 \<Rightarrow> float64 \<Rightarrow> float64" where
  "fmul (Fin x) (Fin y) = Fin (x * y)"
| "fmul NaN _ = NaN"
| "fmul _ NaN = NaN"
| "fmul (Fin x) PInf = (if x = 0 then NaN else if 0 < x then PInf else NInf)"
| "fmul (Fin x) NInf = (if x = 0 then NaN else if 0 < x then NInf else PInf)"
| "fmul PInf (Fin y) = (if y = 0 then NaN else if 0 < y then PInf else NInf)"
| "fmul NInf (Fin y) = (if y = 0 then NaN else if 0 < y then NInf else PInf)"
| "fmul PInf PInf = PInf"
| "fmul PInf NInf = NInf"
| "fmul NInf PInf = NInf"
| "fmul NInf NInf = PInf"

text \<open>numpy's true division: a zero divisor gives an infinity or nan, never an exception.\<close>

fun np_divide :: "float64 \<Rightarrow> float64 \<Rightarrow> float64" where
  "np_divide (Fin x) (Fin y) =
     (if y \<noteq> 0 then Fin (x / y) else if x = 0 then NaN else if 0 < x then PInf else NInf)"
| "np_divide NaN _ = NaN"
| "np_divide _ NaN = NaN"
| "np_divide (Fin x) PInf = Fin 0"
| "np_divide (Fin x) NInf = Fin 0"
| "np_divide PInf (Fin y) = (if 0 \<le> y then PInf else NInf)"
| "np_divide NInf (Fin y) = (if 0 \<le> y then NInf else PInf)"
| "np_divide PInf PInf = NaN"
| "np_divide PInf NInf = NaN"
| "np_divide NInf PInf = NaN"
| "np_divide NInf NInf = NaN"

fun np_exp :: "float64 \<Rightarrow> float64" where
  "np_exp (Fin x) = Fin (exp x)"
| "np_exp PInf = PInf"
| "np_exp NInf = Fin 0"
| "np_exp NaN = NaN"

fun np_sqrt :: "float64 \<Rightarrow> float64" where
  "np_sqrt (Fin x) = (if x < 0 then NaN else Fin (sqrt x))"
| "np_sqrt PInf = PInf"
| "np_sqrt NInf = NaN"
| "np_sqrt NaN = NaN"

text \<open>\<open>x ** 2\<close> on a Python float.\<close>

fun py_pow2 :: "float64 \<Rightarrow> float64" where
  "py_pow2 (Fin x) = Fin (x\<^sup>2)"
| "py_pow2 PInf = PInf"
| "py_pow2 NInf = PInf"
| "py_pow2 NaN = NaN"

text \<open>\<open>np.clip(x, a_min=0, a_max=None)\<close> on one element: nan stays nan.\<close>

fun np_clip_min0 :: "float64 \<Rightarrow> float64" where
  "np_clip_min0 (Fin x) = Fin (max x 0)"
| "np_clip_min0 PInf = PInf"
| "np_clip_min0 NInf = Fin 0"
| "np_clip_min0 NaN = NaN"

text \<open>\<open>np.mean\<close> of a one-dimensional array: nan (and a warning) on the empty array.\<close>

definition np_mean :: "float64 list \<Rightarrow> float64" where
  "np_mean xs =
     (if xs = [] then NaN else np_divide (foldl fadd (Fin 0) xs) (Fin (real (length xs))))"


text \<open>
  The \<open>bump\<close> of the two estimators is whatever number the caller passes: a Python
  float or a numpy \<open>float64\<close> scalar. The two kinds carry the same values and differ in
  their division: by a zero Python float it raises, by a zero numpy scalar it does not.
\<close>

datatype scalar = PyFloat float64 | NpFloat float64

fun scalar_val :: "scalar \<Rightarrow> float64" where
  "scalar_val (PyFloat x) = x"
| "scalar_val (NpFloat x) = x"

text \<open>\<open>k * b\<close> for a Python number \<open>k\<close>: the product has the kind of \<open>b\<close>.\<close>

fun scalar_mul :: "float64 \<Rightarrow> scalar \<Rightarrow> scalar" where
  "scalar_mul k (PyFloat x) = PyFloat (fmul k x)"
| "scalar_mul k (NpFloat x) = NpFloat (fmul k x)"

section \<open>Exceptions, the process-wide state and sequencing\<close>

datatype error =
    TypeError
  | ZeroDivisionError
  | OverflowError
  | IndexError
  | ValueError
  | RuntimeError string
  | Unaligned

text \<open>
  \<open>RuntimeError\<close> is what the QuantLib bindings raise when the library refuses, with the
  library's message; \<open>OverflowError\<close> is what they raise when a Python int does not fit
  the unsigned integer a parameter takes. \<open>Unaligned\<close> is not a Python exception: it marks
  a \<open>pd.concat\<close> of frames whose labels differ, where pandas would align them; that path
  is not modelled (and lemma \<open>comdty_vanilla_option_spread_errors\<close> and its siblings show
  it is never taken).
\<close>

datatype ql_date = Date int int int

record datetime =
  year :: int
  month :: int
  day :: int

datatype day_counter =
  SimpleDayCounter | Thirty360 | Actual360 | Actual365Fixed | Actual365FixedCanadian
| Actual365FixedNoLeap | ActualActual | Business252

datatype calendar = UnitedKingdom | Germany | Italy | UnitedStates

datatype compounding = Simple | Compounded | Continuous

datatype frequency =
  NoFrequency | Once | Annual | Semiannual | EveryFourthMonth | Quarterly | Bimonthly
| Monthly | EveryFourthWeek | Biweekly | Weekly | Daily

text \<open>
  The term structures are the objects the repository builds (\<open>qlyield.py\<close>,
  \<open>qlvolsurface.py\<close>, and inside \<open>qloptions.py\<close>); what they answer to a query is the
  library's business (record \<open>quantlib\<close> below).
\<close>

datatype yield_ts =
    ForwardCurve "ql_date list" "float64 list" day_counter calendar
  | FlatForward ql_date float64 day_counter compounding frequency

datatype vol_ts =
    BlackConstantVol ql_date calendar float64 day_counter
  | BlackVarianceSurface ql_date calendar "ql_date list" "float64 list" "float64 list list"
      day_counter

fun yc_dayCounter :: "yield_ts \<Rightarrow> day_counter" where
  "yc_dayCounter (ForwardCurve _ _ dc _) = dc"
| "yc_dayCounter (FlatForward _ _ dc _ _) = dc"

fun vol_dayCounter :: "vol_ts \<Rightarrow> day_counter" where
  "vol_dayCounter (BlackConstantVol _ _ _ dc) = dc"
| "vol_dayCounter (BlackVarianceSurface _ _ _ _ _ dc) = dc"

fun vol_calendar :: "vol_ts \<Rightarrow> calendar" where
  "vol_calendar (BlackConstantVol _ cal _ _) = cal"
| "vol_calendar (BlackVarianceSurface _ cal _ _ _ _) = cal"

record process =
  x0 :: float64
  riskFreeRate :: yield_ts
  blackVolatility :: vol_ts

datatype option_type_ql = Call | Put

datatype payoff = PlainVanillaPayoff option_type_ql float64

datatype exercise = AmericanExercise ql_date ql_date | EuropeanExercise ql_date

datatype engine = BinomialCRRVanillaEngine process int | AnalyticEuropeanEngine process

text \<open>
  A \<open>ql.VanillaOption\<close> is a mutable object: \<open>setPricingEngine\<close> replaces its engine,
  and every later result is computed with the engine set last.
\<close>

record vanilla_option =
  opt_payoff :: payoff
  opt_exercise :: exercise
  opt_engine :: "engine option"

datatype greek = G_NPV | G_delta | G_gamma | G_theta | G_vega | G_rho

datatype time_grid = TimeGrid float64 nat

datatype process_array = StochasticProcessArray "process list" "float64 list list"

datatype path_generator =
  GaussianMultiPathGenerator process_array time_grid nat

datatype ql_object =
    Obj_date ql_date
  | Obj_exercise exercise
  | Obj_engine engine
  | Obj_grid time_grid
  | Obj_array process_array
  | Obj_generator path_generator

text \<open>
  The calls to the library that the statements below speak about, in the order the
  program makes them: a Black process built, a binomial engine built (with its process
  and its number of steps), a result of an option requested.
\<close>

datatype ql_event =
    New_BlackProcess process
  | New_BinomialCRRVanillaEngine process int
  | Calculate greek payoff exercise engine

record world =
  evaluationDate :: ql_date
  seed_source :: nat
  events :: "ql_event list"

type_synonym 'a py = "world \<Rightarrow> (error + 'a) \<times> world"

definition ret :: "'a \<Rightarrow> 'a py" where
  "ret x = (\<lambda>w. (Inr x, w))"

definition raise :: "error \<Rightarrow> 'a py" where
  "raise e = (\<lambda>w. (Inl e, w))"

definition py_bind :: "'a py \<Rightarrow> ('a \<Rightarrow> 'b py) \<Rightarrow> 'b py" where
  "py_bind m f = (\<lambda>w. case m w of (Inl e, w') \<Rightarrow> (Inl e, w') | (Inr x, w') \<Rightarrow> f x w')"

definition lift :: "error + 'a \<Rightarrow> 'a py" where
  "lift r = (\<lambda>w. (r, w))"

section \<open>The external libraries\<close>

text \<open>
  QuantLib and SciPy are not part of the repository: they are a parameter of every
  function below. A query on a curve or a surface (\<open>zeroRate\<close>, \<open>blackVol\<close>) answers
  with a float or refuses with a message (a date or a strike outside the domain of the
  term structure); a constructor whose arguments the library checks refuses with a
  message (\<open>rejects\<close>), \<open>ql.Date\<close> among them; the valuation itself (\<open>calculate\<close>)
  answers or refuses likewise. Every refusal reaches Python as a \<open>RuntimeError\<close>.
\<close>

record quantlib =
  yearFraction :: "day_counter \<Rightarrow> ql_date \<Rightarrow> ql_date \<Rightarrow> float64"
  zeroRate ::
    "yield_ts \<Rightarrow> ql_date \<Rightarrow> day_counter \<Rightarrow> compounding \<Rightarrow> frequency \<Rightarrow> string + float64"
  blackVol :: "vol_ts \<Rightarrow> ql_date \<Rightarrow> float64 \<Rightarrow> string + float64"
  blackVol_time :: "vol_ts \<Rightarrow> float64 \<Rightarrow> float64 \<Rightarrow> string + float64"
  rejects :: "ql_object \<Rightarrow> string option"
  calculate :: "ql_date \<Rightarrow> greek \<Rightarrow> engine \<Rightarrow> payoff \<Rightarrow> exercise \<Rightarrow> string + float64"
  next_seed :: "nat \<Rightarrow> nat"
  multipath :: "path_generator \<Rightarrow> nat \<Rightarrow> float64 list list"
  probit :: "real \<Rightarrow> real"

text \<open>
  \<open>scipy.stats.norm.ppf\<close>: the normal quantile inside (0, 1), the infinities at the
  ends, nan elsewhere. It never raises.
\<close>

fun norm_ppf :: "quantlib \<Rightarrow> float64 \<Rightarrow> float64" where
  "norm_ppf L (Fin q) =
     (if 0 < q \<and> q < 1 then Fin (probit L q)
      else if q = 0 then NInf else if q = 1 then PInf else NaN)"
| "norm_ppf L PInf = NaN"
| "norm_ppf L NInf = NaN"
| "norm_ppf L NaN = NaN"

text \<open>The answer of a query, as the Python caller sees it.\<close>

definition query :: "string + float64 \<Rightarrow> float64 py" where
  "query answer = (case answer of Inl msg \<Rightarrow> raise (RuntimeError msg) | Inr v \<Rightarrow> ret v)"

definition construct :: "quantlib \<Rightarrow> ql_object \<Rightarrow> unit py" where
  "construct L obj = (case rejects L obj of None \<Rightarrow> ret () | Some msg \<Rightarrow> raise (RuntimeError msg))"

definition BlackProcess :: "float64 \<Rightarrow> yield_ts \<Rightarrow> vol_ts \<Rightarrow> process py" where
  "BlackProcess quote yield_curve volatility =
     (\<lambda>w. let p = \<lparr>x0 = quote, riskFreeRate = yield_curve, blackVolatility = volatility\<rparr>
          in (Inr p, w\<lparr>events := events w @ [New_BlackProcess p]\<rparr>))"

text \<open>
  A Python int passed where the library takes a \<open>Size\<close> is converted to an unsigned
  64-bit integer by the bindings: a negative int and an int of 2 to the power 64 or more are an
  \<open>OverflowError\<close>, raised before the library sees the call.
\<close>

definition as_Size :: "int \<Rightarrow> int py" where
  "as_Size n = (if n < 0 \<or> 2 ^ 64 \<le> n then raise OverflowError else ret n)"

text \<open>\<open>ql.BinomialCRRVanillaEngine(process, steps)\<close> with a Python int for \<open>steps\<close>.\<close>

definition BinomialCRRVanillaEngine_py :: "quantlib \<Rightarrow> process \<Rightarrow> int \<Rightarrow> engine py" where
  "BinomialCRRVanillaEngine_py L process steps =
     py_bind (as_Size steps) (\<lambda>n.
     py_bind (construct L (Obj_engine (BinomialCRRVanillaEngine process n))) (\<lambda>_.
     (\<lambda>w. (Inr (BinomialCRRVanillaEngine process n),
           w\<lparr>events := events w @ [New_BinomialCRRVanillaEngine process n]\<rparr>))))"

definition VanillaOption :: "payoff \<Rightarrow> exercise \<Rightarrow> vanilla_option" where
  "VanillaOption p e = \<lparr>opt_payoff = p, opt_exercise = e, opt_engine = None\<rparr>"

definition setPricingEngine :: "vanilla_option \<Rightarrow> engine \<Rightarrow> vanilla_option" where
  "setPricingEngine opt e = opt\<lparr>opt_engine := Some e\<rparr>"

text \<open>
  \<open>option.NPV()\<close>, \<open>option.delta()\<close> and so on: the library values the contract with the
  engine the option holds now, at the process-wide evaluation date.
\<close>

definition result_of :: "quantlib \<Rightarrow> greek \<Rightarrow> vanilla_option \<Rightarrow> float64 py" where
  "result_of L g opt =
     (case opt_engine opt of
        None \<Rightarrow> raise (RuntimeError ''null pricing engine'')
      | Some e \<Rightarrow>
          (\<lambda>w. (case calculate L (evaluationDate w) g e (opt_payoff opt) (opt_exercise opt) of
                  Inl msg \<Rightarrow> Inl (RuntimeError msg)
                | Inr v \<Rightarrow> Inr v,
                w\<lparr>events := events w @ [Calculate g (opt_payoff opt) (opt_exercise opt) e]\<rparr>)))"

section \<open>Python and pandas helpers\<close>

definition upper_char :: "char \<Rightarrow> char" where
  "upper_char c =
     (case map_of (zip ''abcdefghijklmnopqrstuvwxyz'' ''ABCDEFGHIJKLMNOPQRSTUVWXYZ'') c of
        None \<Rightarrow> c | Some u \<Rightarrow> u)"

text \<open>\<open>str.upper()\<close> on ASCII text.\<close>

definition upper :: "string \<Rightarrow> string" where
  "upper s = map upper_char s"

text \<open>\<open>int(steps)\<close>: \<open>None\<close> is not a number.\<close>

definition py_int :: "int option \<Rightarrow> int py" where
  "py_int steps = (case steps of None \<Rightarrow> raise TypeError | Some n \<Rightarrow> ret n)"

text \<open>
  \<open>a / b\<close> for a Python float \<open>a\<close>: a zero Python float as the divisor raises; with a
  numpy scalar as the divisor the division is numpy's, which gives an infinity or nan
  (and a warning) at zero.
\<close>

fun py_truediv :: "float64 \<Rightarrow> scalar \<Rightarrow> float64 py" where
  "py_truediv a (PyFloat b) = (if b = Fin 0 then raise ZeroDivisionError else ret (np_divide a b))"
| "py_truediv a (NpFloat b) = ret (np_divide a b)"

record frame =
  index :: "string list"
  columns :: "string list"
  vals :: "float64 list list"

text \<open>
  \<open>pd.DataFrame(data, columns=[c], index=idx)\<close> with a list of scalars: one column, one
  row per scalar. At every call the data and the index are literal lists of one length.
\<close>

definition DataFrame :: "float64 list \<Rightarrow> string \<Rightarrow> string list \<Rightarrow> frame" where
  "DataFrame data c idx = \<lparr>index = idx, columns = [c], vals = map (\<lambda>v. [v]) data\<rparr>"

text \<open>The same constructor on a two-dimensional array.\<close>

definition DataFrame2 :: "float64 list list \<Rightarrow> string \<Rightarrow> string list \<Rightarrow> frame py" where
  "DataFrame2 arr c idx =
     (if length arr = length idx \<and> list_all (\<lambda>row. length row = 1) arr
      then ret \<lparr>index = idx, columns = [c], vals = arr\<rparr> else raise ValueError)"

definition array_sub :: "float64 list list \<Rightarrow> float64 list list \<Rightarrow> float64 list list" where
  "array_sub a b = map2 (map2 fsub) a b"

definition array_add :: "float64 list list \<Rightarrow> float64 list list \<Rightarrow> float64 list list" where
  "array_add a b = map2 (map2 fadd) a b"

definition array_scale :: "float64 \<Rightarrow> float64 list list \<Rightarrow> float64 list list" where
  "array_scale k a = map (map (fmul k)) a"

text \<open>\<open>frame.columns = [f'{frame.columns[0]}' + suffix]\<close>\<close>

definition rename_column :: "frame \<Rightarrow> string \<Rightarrow> frame py" where
  "rename_column f suffix =
     (case columns f of
        [] \<Rightarrow> raise IndexError
      | c # cs \<Rightarrow> if cs = [] then ret (f\<lparr>columns := [c @ suffix]\<rparr>) else raise ValueError)"

fun glue_rows :: "float64 list list list \<Rightarrow> float64 list list" where
  "glue_rows [] = []"
| "glue_rows [a] = a"
| "glue_rows (a # rest) = map2 (@) a (glue_rows rest)"

text \<open>\<open>pd.concat(frames, axis=1)\<close> for frames with one and the same index.\<close>

definition concat_axis1 :: "frame list \<Rightarrow> frame py" where
  "concat_axis1 fs =
     (case fs of
        [] \<Rightarrow> raise ValueError
      | f # rest \<Rightarrow>
          if list_all (\<lambda>g. index g = index f) rest
          then ret \<lparr>index = index f, columns = concat (map columns fs),
                    vals = glue_rows (map vals fs)\<rparr>
          else raise Unaligned)"

text \<open>\<open>pd.concat(frames, axis=0)\<close> for frames with one and the same column labels.\<close>

definition concat_axis0 :: "frame list \<Rightarrow> frame py" where
  "concat_axis0 fs =
     (case fs of
        [] \<Rightarrow> raise ValueError
      | f # rest \<Rightarrow>
          if list_all (\<lambda>g. columns g = columns f) rest
          then ret \<lparr>index = concat (map index fs), columns = columns f,
                    vals = concat (map vals fs)\<rparr>
          else raise Unaligned)"

definition greek_index :: "string list" where
  "greek_index = [''price'', ''delta'', ''gamma'', ''theta'', ''vega'', ''rho'']"

section \<open>qlutils.py\<close>

text \<open>
  \<open>ql.Date(date.day, date.month, date.year)\<close>: the library checks the three numbers
  (it knows the years 1901 to 2199 only) and refuses the others.
\<close>

definition py_to_ql_date :: "quantlib \<Rightarrow> datetime \<Rightarrow> ql_date py" where
  "py_to_ql_date L date =
     py_bind (construct L (Obj_date (Date (day date) (month date) (year date)))) (\<lambda>_.
     ret (Date (day date) (month date) (year date)))"

section \<open>qloptions.py\<close>

definition set_evaluationDate :: "ql_date \<Rightarrow> unit py" where
  "set_evaluationDate d = (\<lambda>w. (Inr (), w\<lparr>evaluationDate := d\<rparr>))"

definition get_evaluationDate :: "ql_date py" where
  "get_evaluationDate = (\<lambda>w. (Inr (evaluationDate w), w))"

text \<open>
  \<open>estimate_vega\<close> and \<open>estimate_rho\<close> receive the caller's option object and set its
  pricing engine twice; the object they leave behind is returned next to the estimate.
\<close>

definition estimate_vega ::
  "quantlib \<Rightarrow> vanilla_option \<Rightarrow> process \<Rightarrow> vol_ts \<Rightarrow> float64 \<Rightarrow> ql_date \<Rightarrow> int option \<Rightarrow> scalar
     \<Rightarrow> (float64 \<times> vanilla_option) py" where
  "estimate_vega L opt process volatility strike_price expiry_date steps bump =
     py_bind get_evaluationDate (\<lambda>evaluation_date.
     py_bind (query (blackVol L volatility expiry_date strike_price)) (\<lambda>vol_up.
     let bumped_vol_up = BlackConstantVol evaluation_date (vol_calendar volatility)
           (fadd vol_up (scalar_val bump)) (vol_dayCounter volatility)
     in
     py_bind (BlackProcess (x0 process) (riskFreeRate process) bumped_vol_up) (\<lambda>process_up.
     py_bind (py_int steps) (\<lambda>n_up.
     py_bind (BinomialCRRVanillaEngine_py L process_up n_up) (\<lambda>engine_up.
     let opt = setPricingEngine opt engine_up in
     py_bind (result_of L G_NPV opt) (\<lambda>price_up.
     py_bind (query (blackVol L volatility expiry_date strike_price)) (\<lambda>vol_down.
     let bumped_vol_down = BlackConstantVol evaluation_date (vol_calendar volatility)
           (fsub vol_down (scalar_val bump)) (vol_dayCounter volatility)
     in
     py_bind (BlackProcess (x0 process) (riskFreeRate process) bumped_vol_down) (\<lambda>process_down.
     py_bind (py_int steps) (\<lambda>n_down.
     py_bind (BinomialCRRVanillaEngine_py L process_down n_down) (\<lambda>engine_down.
     let opt = setPricingEngine opt engine_down in
     py_bind (result_of L G_NPV opt) (\<lambda>price_down.
     py_bind (py_truediv (fsub price_up price_down) (scalar_mul (Fin 2) bump)) (\<lambda>vega.
     ret (vega, opt)))))))))))))"

definition estimate_rho ::
  "quantlib \<Rightarrow> vanilla_option \<Rightarrow> process \<Rightarrow> yield_ts \<Rightarrow> vol_ts \<Rightarrow> ql_date \<Rightarrow> int option \<Rightarrow> scalar
     \<Rightarrow> (float64 \<times> vanilla_option) py" where
  "estimate_rho L opt process yield_curve volatility expiry_date steps bump =
     py_bind get_evaluationDate (\<lambda>evaluation_date.
     py_bind (query (zeroRate L yield_curve expiry_date (yc_dayCounter yield_curve) Continuous
                       Annual)) (\<lambda>base_rate.
     let bumped_yield_up = FlatForward evaluation_date (fadd base_rate (scalar_val bump))
           (yc_dayCounter yield_curve) Continuous Annual
     in
     py_bind (BlackProcess (x0 process) bumped_yield_up volatility) (\<lambda>process_up.
     py_bind (py_int steps) (\<lambda>n_up.
     py_bind (BinomialCRRVanillaEngine_py L process_up n_up) (\<lambda>engine_up.
     let opt = setPricingEngine opt engine_up in
     py_bind (result_of L G_NPV opt) (\<lambda>price_up.
     let bumped_yield_down = FlatForward evaluation_date (fsub base_rate (scalar_val bump))
           (yc_dayCounter yield_curve) Continuous Annual
     in
     py_bind (BlackProcess (x0 process) bumped_yield_down volatility) (\<lambda>process_down.
     py_bind (py_int steps) (\<lambda>n_down.
     py_bind (BinomialCRRVanillaEngine_py L process_down n_down) (\<lambda>engine_down.
     let opt = setPricingEngine opt engine_down in
     py_bind (result_of L G_NPV opt) (\<lambda>price_down.
     py_bind (py_truediv (fsub price_up price_down) (scalar_mul (Fin 2) bump)) (\<lambda>rho.
     ret (rho, opt))))))))))))"

text \<open>The default values of the two \<open>bump\<close> parameters, Python floats.\<close>

definition estimate_vega_bump :: scalar where
  "estimate_vega_bump = PyFloat (Fin (1 / 100))"

definition estimate_rho_bump :: scalar where
  "estimate_rho_bump = PyFloat (Fin (1 / 1000))"

text \<open>
  Line 53 of \<open>qloptions.py\<close>: the list \<open>[option.NPV(), option.delta(), option.gamma(),
  option.theta(), option_vega, option_rho]\<close> is evaluated left to right, then framed.
\<close>

definition result_frame ::
  "quantlib \<Rightarrow> vanilla_option \<Rightarrow> float64 \<Rightarrow> float64 \<Rightarrow> string \<Rightarrow> frame py" where
  "result_frame L opt option_vega option_rho option_type =
     py_bind (result_of L G_NPV opt) (\<lambda>npv.
     py_bind (result_of L G_delta opt) (\<lambda>delta.
     py_bind (result_of L G_gamma opt) (\<lambda>gamma.
     py_bind (result_of L G_theta opt) (\<lambda>theta.
     ret (DataFrame [npv, delta, gamma, theta, option_vega, option_rho] option_type
            greek_index)))))"

definition comdty_vanilla_option ::
  "quantlib \<Rightarrow> datetime \<Rightarrow> datetime \<Rightarrow> float64 \<Rightarrow> float64 \<Rightarrow> string \<Rightarrow> string \<Rightarrow> int option
     \<Rightarrow> vol_ts \<Rightarrow> yield_ts \<Rightarrow> frame py" where
  "comdty_vanilla_option L evaluation_date expiry_date forward_price strike_price option_type
       exercise_type steps volatility yield_curve =
     py_bind (py_to_ql_date L evaluation_date) (\<lambda>today.
     py_bind (set_evaluationDate today) (\<lambda>_.
     py_bind (py_to_ql_date L expiry_date) (\<lambda>expiry.
     let option_type_ql = (if upper option_type = ''CALL'' then Call else Put) in
     py_bind (BlackProcess forward_price yield_curve volatility) (\<lambda>process.
     let payoff = PlainVanillaPayoff option_type_ql strike_price in
     if upper exercise_type = ''AMERICAN'' then
       py_bind (py_to_ql_date L evaluation_date) (\<lambda>earliest.
       let exercise = AmericanExercise earliest expiry in
       py_bind (construct L (Obj_exercise exercise)) (\<lambda>_.
       py_bind (py_int steps) (\<lambda>n.
       py_bind (BinomialCRRVanillaEngine_py L process n) (\<lambda>engine.
       let opt = setPricingEngine (VanillaOption payoff exercise) engine in
       py_bind (estimate_vega L opt process volatility strike_price expiry steps
                  estimate_vega_bump) (\<lambda>(option_vega, opt).
       py_bind (estimate_rho L opt process yield_curve volatility expiry steps
                  estimate_rho_bump) (\<lambda>(option_rho, opt).
       result_frame L opt option_vega option_rho option_type))))))
     else
       let engine = AnalyticEuropeanEngine process;
           opt = setPricingEngine (VanillaOption payoff (EuropeanExercise expiry)) engine
       in
       py_bind (result_of L G_vega opt) (\<lambda>option_vega.
       py_bind (result_of L G_rho opt) (\<lambda>option_rho.
       result_frame L opt option_vega option_rho option_type))))))"

definition comdty_vanilla_option_delta ::
  "quantlib \<Rightarrow> datetime \<Rightarrow> datetime \<Rightarrow> float64 \<Rightarrow> float64 \<Rightarrow> string \<Rightarrow> vol_ts \<Rightarrow> yield_ts
     \<Rightarrow> frame py" where
  "comdty_vanilla_option_delta L evaluation_date expiry_date forward_price delta option_type
       volatility yield_curve =
     py_bind (py_to_ql_date L expiry_date) (\<lambda>expiry_date_ql.
     py_bind (py_to_ql_date L evaluation_date) (\<lambda>evaluation_date_ql.
     let day_counter = yc_dayCounter yield_curve;
         years_to_maturity = yearFraction L day_counter evaluation_date_ql expiry_date_ql
     in
     py_bind (query (zeroRate L yield_curve expiry_date_ql day_counter Continuous Annual))
       (\<lambda>riskfree_rate.
     py_bind (query (blackVol_time L volatility years_to_maturity forward_price))
       (\<lambda>volatility_atm.
     let d1 = (if upper option_type = ''CALL''
               then norm_ppf L (fmul delta (np_exp (fmul riskfree_rate years_to_maturity)))
               else norm_ppf L
                      (fadd (fmul delta (np_exp (fmul riskfree_rate years_to_maturity))) (Fin 1)));
         strike_price = np_divide forward_price
           (np_exp (fsub (fmul (fmul volatility_atm (np_sqrt years_to_maturity)) d1)
                         (fmul (fmul (Fin (1 / 2)) (py_pow2 volatility_atm)) years_to_maturity)))
     in
     py_bind (comdty_vanilla_option L evaluation_date expiry_date forward_price strike_price
                option_type ''EUROPEAN'' None volatility yield_curve) (\<lambda>option_frame.
     let strike_frame = DataFrame
           [d1, riskfree_rate, volatility_atm, years_to_maturity, strike_price] option_type
           [''d1'', ''riskfree_rate'', ''volatility_atm'', ''years_to_maturity'', ''strike_price'']
     in concat_axis0 [option_frame, strike_frame])))))"

definition comdty_vanilla_option_spread ::
  "quantlib \<Rightarrow> datetime \<Rightarrow> datetime \<Rightarrow> float64 \<Rightarrow> float64 \<Rightarrow> float64 \<Rightarrow> string \<Rightarrow> string
     \<Rightarrow> int option \<Rightarrow> vol_ts \<Rightarrow> yield_ts \<Rightarrow> frame py" where
  "comdty_vanilla_option_spread L evaluation_date expiry_date forward_price strike_price_long
       strike_price_short option_type exercise_type steps volatility yield_curve =
     py_bind (comdty_vanilla_option L evaluation_date expiry_date forward_price
                strike_price_long option_type exercise_type steps volatility yield_curve)
       (\<lambda>option_price_long.
     py_bind (comdty_vanilla_option L evaluation_date expiry_date forward_price
                strike_price_short option_type exercise_type steps volatility yield_curve)
       (\<lambda>option_price_short.
     py_bind (rename_column option_price_long ''_LONG'') (\<lambda>option_price_long.
     py_bind (rename_column option_price_short ''_SHORT'') (\<lambda>option_price_short.
     py_bind (DataFrame2 (array_sub (vals option_price_long) (vals option_price_short))
                (option_type @ ''_SPREAD'') greek_index) (\<lambda>structure.
     concat_axis1 [option_price_long, option_price_short, structure])))))"

definition comdty_vanilla_option_collar ::
  "quantlib \<Rightarrow> datetime \<Rightarrow> datetime \<Rightarrow> float64 \<Rightarrow> float64 \<Rightarrow> float64 \<Rightarrow> string
     \<Rightarrow> int option \<Rightarrow> vol_ts \<Rightarrow> yield_ts \<Rightarrow> frame py" where
  "comdty_vanilla_option_collar L evaluation_date expiry_date forward_price
       strike_price_call_short strike_price_put_long exercise_type steps volatility yield_curve =
     py_bind (comdty_vanilla_option L evaluation_date expiry_date forward_price
                strike_price_call_short ''CALL'' exercise_type steps volatility yield_curve)
       (\<lambda>call_price.
     py_bind (comdty_vanilla_option L evaluation_date expiry_date forward_price
                strike_price_put_long ''PUT'' exercise_type steps volatility yield_curve)
       (\<lambda>put_price.
     py_bind (DataFrame2 (array_sub (vals put_price) (vals call_price)) ''COLLAR'' greek_index)
       (\<lambda>structure.
     concat_axis1 [call_price, put_price, structure])))"

definition comdty_vanilla_option_butterfly ::
  "quantlib \<Rightarrow> datetime \<Rightarrow> datetime \<Rightarrow> float64 \<Rightarrow> float64 \<Rightarrow> float64 \<Rightarrow> float64 \<Rightarrow> string
     \<Rightarrow> string \<Rightarrow> int option \<Rightarrow> vol_ts \<Rightarrow> yield_ts \<Rightarrow> frame py" where
  "comdty_vanilla_option_butterfly L evaluation_date expiry_date forward_price
       strike_price_low_long strike_price_middle_short strike_price_high_long option_type
       exercise_type steps volatility yield_curve =
     py_bind (comdty_vanilla_option L evaluation_date expiry_date forward_price
                strike_price_low_long option_type exercise_type steps volatility yield_curve)
       (\<lambda>option_price_low.
     py_bind (comdty_vanilla_option L evaluation_date expiry_date forward_price
                strike_price_middle_short option_type exercise_type steps volatility yield_curve)
       (\<lambda>option_price_middle.
     py_bind (comdty_vanilla_option L evaluation_date expiry_date forward_price
                strike_price_high_long option_type exercise_type steps volatility yield_curve)
       (\<lambda>option_price_high.
     py_bind (rename_column option_price_low ''_LOW'') (\<lambda>option_price_low.
     py_bind (rename_column option_price_middle ''_MIDDLE'') (\<lambda>option_price_middle.
     py_bind (rename_column option_price_high ''_HIGH'') (\<lambda>option_price_high.
     py_bind (DataFrame2
                (array_add (array_sub (vals option_price_low)
                              (array_scale (Fin 2) (vals option_price_middle)))
                   (vals option_price_high))
                (option_type @ ''_BUTTERFLY'') greek_index) (\<lambda>structure.
     concat_axis1 [option_price_low, option_price_middle, option_price_high, structure])))))))"

text \<open>\<open>np.min\<close> of two \<open>ql.Date\<close> objects, which compare by calendar order.\<close>

fun date_le :: "ql_date \<Rightarrow> ql_date \<Rightarrow> bool" where
  "date_le (Date d m y) (Date d' m' y') =
     (y < y' \<or> (y = y' \<and> (m < m' \<or> (m = m' \<and> d \<le> d'))))"

definition date_min :: "ql_date \<Rightarrow> ql_date \<Rightarrow> ql_date" where
  "date_min a b = (if date_le a b then a else b)"

text \<open>\<open>generated_path[i][-1]\<close>\<close>

definition terminal :: "float64 list list \<Rightarrow> nat \<Rightarrow> error + float64" where
  "terminal generated_path i =
     (if i < length generated_path
      then (case generated_path ! i of [] \<Rightarrow> Inl IndexError | p # ps \<Rightarrow> Inr (last (p # ps)))
      else Inl IndexError)"

text \<open>
  The loop over \<open>range(int(paths))\<close>. The generator is deterministic once seeded: its
  \<open>k\<close>-th call of \<open>next()\<close> returns \<open>multipath L gen k\<close>, and \<open>k\<close> is the state the
  loop advances.
\<close>

fun draw_paths ::
  "quantlib \<Rightarrow> path_generator \<Rightarrow> nat \<Rightarrow> nat \<Rightarrow> float64 list \<times> float64 list
     \<Rightarrow> error + float64 list \<times> float64 list" where
  "draw_paths L gen 0 k acc = Inr acc"
| "draw_paths L gen (Suc n) k (contract_long, contract_short) =
     (let generated_path = multipath L gen k in
      case terminal generated_path 0 of
        Inl e \<Rightarrow> Inl e
      | Inr a \<Rightarrow>
          (case terminal generated_path 1 of
             Inl e \<Rightarrow> Inl e
           | Inr b \<Rightarrow> draw_paths L gen n (Suc k) (contract_long @ [a], contract_short @ [b])))"

text \<open>\<open>ql.UniformRandomGenerator()\<close> takes its seed from the process-wide seed source.\<close>

definition UniformRandomGenerator :: "quantlib \<Rightarrow> nat py" where
  "UniformRandomGenerator L =
     (\<lambda>w. (Inr (seed_source w), w\<lparr>seed_source := next_seed L (seed_source w)\<rparr>))"

definition comdty_vanilla_option_calendar_spread ::
  "quantlib \<Rightarrow> datetime \<Rightarrow> datetime \<Rightarrow> datetime \<Rightarrow> float64 \<Rightarrow> float64 \<Rightarrow> string \<Rightarrow> float64
     \<Rightarrow> vol_ts \<Rightarrow> yield_ts \<Rightarrow> int \<Rightarrow> frame py" where
  "comdty_vanilla_option_calendar_spread L evaluation_date expiry_date_long expiry_date_short
       forward_price strike_price option_type correlation volatility yield_curve paths =
     py_bind (py_to_ql_date L evaluation_date) (\<lambda>evaluation_date.
     py_bind (set_evaluationDate evaluation_date) (\<lambda>_.
     py_bind (py_to_ql_date L expiry_date_long) (\<lambda>expiry_date_long.
     py_bind (py_to_ql_date L expiry_date_short) (\<lambda>expiry_date_short.
     let correlation_matrix = [[Fin 1, correlation], [correlation, Fin 1]] in
     py_bind (query (blackVol L volatility expiry_date_long forward_price)) (\<lambda>volatility_long.
     py_bind (query (blackVol L volatility expiry_date_short forward_price)) (\<lambda>volatility_short.
     let volatility_term_structure_long = BlackConstantVol evaluation_date
           (vol_calendar volatility) volatility_long (vol_dayCounter volatility);
         volatility_term_structure_short = BlackConstantVol evaluation_date
           (vol_calendar volatility) volatility_short (vol_dayCounter volatility)
     in
     py_bind (query (zeroRate L yield_curve expiry_date_long (yc_dayCounter yield_curve)
                       Continuous NoFrequency)) (\<lambda>riskfree_rate_long.
     py_bind (query (zeroRate L yield_curve expiry_date_short (yc_dayCounter yield_curve)
                       Continuous NoFrequency)) (\<lambda>riskfree_rate_short.
     let riskfree_rate_term_structure_long = FlatForward evaluation_date riskfree_rate_long
           (yc_dayCounter yield_curve) Continuous Annual;
         riskfree_rate_term_structure_short = FlatForward evaluation_date riskfree_rate_short
           (yc_dayCounter yield_curve) Continuous Annual
     in
     py_bind (BlackProcess forward_price riskfree_rate_term_structure_long
                volatility_term_structure_long) (\<lambda>process_long.
     py_bind (BlackProcess forward_price riskfree_rate_term_structure_short
                volatility_term_structure_short) (\<lambda>process_short.
     let process_array = StochasticProcessArray [process_long, process_short] correlation_matrix
     in
     py_bind (construct L (Obj_array process_array)) (\<lambda>_.
     let num_steps = 365;
         day_counter = yc_dayCounter yield_curve;
         expiry_date_min = date_min expiry_date_long expiry_date_short;
         risk_free_rate = (if expiry_date_min = expiry_date_long then riskfree_rate_long
                           else riskfree_rate_short);
         years_to_maturity = yearFraction L day_counter evaluation_date expiry_date_min;
         time_grid = TimeGrid years_to_maturity num_steps
     in
     py_bind (construct L (Obj_grid time_grid)) (\<lambda>_.
     py_bind (UniformRandomGenerator L) (\<lambda>seed.
     let gaussian_path_generator = GaussianMultiPathGenerator process_array time_grid seed in
     py_bind (construct L (Obj_generator gaussian_path_generator)) (\<lambda>_.
     py_bind (lift (draw_paths L gaussian_path_generator (nat paths) 0 ([], [])))
       (\<lambda>(contract_long, contract_short).
     let spread = map2 fsub contract_long contract_short;
         payoff = (if upper option_type = ''CALL''
                   then np_mean (map (\<lambda>s. np_clip_min0 (fsub s strike_price)) spread)
                   else np_mean (map (\<lambda>s. np_clip_min0 (fsub strike_price s)) spread));
         discount_factor = np_exp (fmul (fneg risk_free_rate) years_to_maturity);
         price = fmul payoff discount_factor
     in
     ret (DataFrame
            [price, payoff, riskfree_rate_long, riskfree_rate_short, volatility_long,
             volatility_short]
            option_type
            [''price'', ''payoff'', ''risk_free_rate_long'', ''risk_free_rate_short'',
             ''volatility_long'', ''volatility_short'']))))))))))))))))"

section \<open>The objects the program builds, named\<close>

text \<open>The date \<open>py_to_ql_date\<close> returns when the library accepts it.\<close>

definition Date_of :: "datetime \<Rightarrow> ql_date" where
  "Date_of date = Date (day date) (month date) (year date)"

text \<open>
  The process with the flat volatility \<open>v + shift\<close> and the process with the flat rate
  \<open>r + shift\<close>, as \<open>estimate_vega\<close> and \<open>estimate_rho\<close> build them from the volatility
  \<open>v = blackVol(expiry, strike)\<close> and the rate \<open>r = zeroRate(expiry)\<close> they have read;
  the statements below refer to them by these names.
\<close>

definition vega_process :: "ql_date \<Rightarrow> process \<Rightarrow> vol_ts \<Rightarrow> float64 \<Rightarrow> float64 \<Rightarrow> process" where
  "vega_process today p volatility v shift =
     \<lparr>x0 = x0 p, riskFreeRate = riskFreeRate p,
      blackVolatility = BlackConstantVol today (vol_calendar volatility) (fadd v shift)
        (vol_dayCounter volatility)\<rparr>"

definition rho_process ::
  "ql_date \<Rightarrow> process \<Rightarrow> yield_ts \<Rightarrow> vol_ts \<Rightarrow> float64 \<Rightarrow> float64 \<Rightarrow> process" where
  "rho_process today p yield_curve volatility r shift =
     \<lparr>x0 = x0 p,
      riskFreeRate = FlatForward today (fadd r shift) (yc_dayCounter yield_curve) Continuous
        Annual,
      blackVolatility = volatility\<rparr>"

text \<open>
  The objects \<open>comdty_vanilla_option_calendar_spread\<close> builds: the process of one leg
  (flat volatility \<open>v\<close> and flat rate \<open>r\<close>, the values read at the leg's own expiry), the
  pair of processes with the correlation matrix, and the path generator on the time grid
  of 365 steps up to the time \<open>t\<close>.
\<close>

definition calendar_process ::
  "ql_date \<Rightarrow> float64 \<Rightarrow> vol_ts \<Rightarrow> yield_ts \<Rightarrow> float64 \<Rightarrow> float64 \<Rightarrow> process" where
  "calendar_process today forward volatility yield_curve v r =
     \<lparr>x0 = forward,
      riskFreeRate = FlatForward today r (yc_dayCounter yield_curve) Continuous Annual,
      blackVolatility = BlackConstantVol today (vol_calendar volatility) v
        (vol_dayCounter volatility)\<rparr>"

definition calendar_array ::
  "ql_date \<Rightarrow> float64 \<Rightarrow> float64 \<Rightarrow> vol_ts \<Rightarrow> yield_ts \<Rightarrow> float64 \<Rightarrow> float64 \<Rightarrow> float64 \<Rightarrow> float64
     \<Rightarrow> process_array" where
  "calendar_array today forward correlation volatility yield_curve v_long v_short r_long r_short =
     StochasticProcessArray
       [calendar_process today forward volatility yield_curve v_long r_long,
        calendar_process today forward volatility yield_curve v_short r_short]
       [[Fin 1, correlation], [correlation, Fin 1]]"

definition calendar_generator :: "process_array \<Rightarrow> float64 \<Rightarrow> nat \<Rightarrow> path_generator" where
  "calendar_generator processes t seed =
     GaussianMultiPathGenerator processes (TimeGrid t 365) seed"

text \<open>
  Calendar order on dates, strict, written out on the year, the month and the day: the
  order in which one expiry is nearer than another.
\<close>

fun calendar_before :: "ql_date \<Rightarrow> ql_date \<Rightarrow> bool" where
  "calendar_before (Date d m y) (Date d' m' y') =
     (y < y' \<or> (y = y' \<and> m < m') \<or> (y = y' \<and> m = m' \<and> d < d'))"

fun engine_process :: "engine \<Rightarrow> process" where
  "engine_process (BinomialCRRVanillaEngine p _) = p"
| "engine_process (AnalyticEuropeanEngine p) = p"

text \<open>
  A step is quiet when it only adds to the record of library calls, leaves the evaluation
  date as it is, and can fail only with an error that \<open>E\<close> allows.
\<close>

definition quiet :: "(error \<Rightarrow> bool) \<Rightarrow> 'a py \<Rightarrow> bool" where
  "quiet E m =
     (\<forall>w. (\<exists>rest. events (snd (m w)) = events w @ rest) \<and>
          evaluationDate (snd (m w)) = evaluationDate w \<and>
          (case fst (m w) of Inl e \<Rightarrow> E e | Inr _ \<Rightarrow> True))"

text \<open>
  The errors of a pricing call: a refusal of the library or, in the steps of the binomial
  engine, the \<open>TypeError\<close> of \<open>int(None)\<close> and the \<open>OverflowError\<close> of a step count
  that is no unsigned 64-bit integer.
\<close>

definition pricing_error :: "int option \<Rightarrow> error \<Rightarrow> bool" where
  "pricing_error steps e =
     ((\<exists>msg. e = RuntimeError msg) \<or>
      (steps = None \<and> e = TypeError) \<or>
      ((\<exists>n. steps = Some n \<and> (n < 0 \<or> 2 ^ 64 \<le> n)) \<and> e = OverflowError))"

section \<open>A small instance of the libraries\<close>

text \<open>
  Running the model on a concrete input needs a value for the library parameter. This
  instance keeps the argument checks of the library that the examples meet and puts
  closed rational formulas in the place of the numerical engines: its numbers are not
  QuantLib's, and no general statement below depends on it.
\<close>

fun demo_days :: "ql_date \<Rightarrow> int" where
  "demo_days (Date d m y) = 360 * y + 30 * m + d"

definition demo_yearFraction :: "day_counter \<Rightarrow> ql_date \<Rightarrow> ql_date \<Rightarrow> float64" where
  "demo_yearFraction dc a b = Fin (real_of_int (demo_days b - demo_days a) / 360)"

text \<open>A flat curve answers with its rate; a curve of nodes answers at its nodes.\<close>

fun demo_zeroRate ::
  "yield_ts \<Rightarrow> ql_date \<Rightarrow> day_counter \<Rightarrow> compounding \<Rightarrow> frequency \<Rightarrow> string + float64" where
  "demo_zeroRate (FlatForward _ r _ _ _) _ _ _ _ = Inr r"
| "demo_zeroRate (ForwardCurve ds rs _ _) d _ _ _ =
     (case map_of (zip ds rs) d of
        None \<Rightarrow> Inl ''date is outside the curve''
      | Some r \<Rightarrow> Inr r)"

fun demo_vol :: "vol_ts \<Rightarrow> float64" where
  "demo_vol (BlackConstantVol _ _ v _) = v"
| "demo_vol (BlackVarianceSurface _ _ _ _ m _) =
     (case m of [] \<Rightarrow> NaN | row # _ \<Rightarrow> (case row of [] \<Rightarrow> NaN | v # _ \<Rightarrow> v))"

text \<open>A surface answers at every finite strike and refuses the others.\<close>

fun demo_blackVol :: "vol_ts \<Rightarrow> float64 \<Rightarrow> string + float64" where
  "demo_blackVol vts (Fin k) = Inr (demo_vol vts)"
| "demo_blackVol vts _ = Inl ''strike is outside the curve domain''"

fun demo_rejects :: "ql_object \<Rightarrow> string option" where
  "demo_rejects (Obj_date (Date d m y)) =
     (if y < 1901 \<or> 2199 < y then Some ''year out of bound'' else None)"
| "demo_rejects (Obj_engine (BinomialCRRVanillaEngine _ n)) =
     (if n < 2 then Some ''at least 2 time steps required'' else None)"
| "demo_rejects (Obj_exercise (AmericanExercise a b)) =
     (if date_le a b then None else Some ''earliest > latest exercise date'')"
| "demo_rejects (Obj_grid (TimeGrid (Fin t) _)) =
     (if 0 < t then None else Some ''negative times not allowed'')"
| "demo_rejects _ = None"

fun lastDate :: "exercise \<Rightarrow> ql_date" where
  "lastDate (AmericanExercise _ b) = b"
| "lastDate (EuropeanExercise b) = b"

fun demo_value :: "greek \<Rightarrow> option_type_ql \<Rightarrow> float64 \<Rightarrow> float64 \<Rightarrow> float64 \<Rightarrow> float64" where
  "demo_value G_NPV ty npv v t = npv"
| "demo_value G_delta Call npv v t = Fin (1 / 2)"
| "demo_value G_delta Put npv v t = Fin (- 1 / 2)"
| "demo_value G_gamma ty npv v t = Fin 0"
| "demo_value G_theta ty npv v t = fneg v"
| "demo_value G_vega ty npv v t = t"
| "demo_value G_rho ty npv v t = fneg (fmul t npv)"

text \<open>The closed formula refuses a strike that is negative or not a number.\<close>

fun demo_strike_ok :: "engine \<Rightarrow> float64 \<Rightarrow> bool" where
  "demo_strike_ok (AnalyticEuropeanEngine _) (Fin k) = (0 \<le> k)"
| "demo_strike_ok (AnalyticEuropeanEngine _) PInf = True"
| "demo_strike_ok (AnalyticEuropeanEngine _) NInf = False"
| "demo_strike_ok (AnalyticEuropeanEngine _) NaN = False"
| "demo_strike_ok (BinomialCRRVanillaEngine _ _) k = True"

text \<open>
  An option whose last exercise date is not after the evaluation date has expired: every
  result is zero, whatever the engine and the payoff.
\<close>

definition demo_calculate ::
  "ql_date \<Rightarrow> greek \<Rightarrow> engine \<Rightarrow> payoff \<Rightarrow> exercise \<Rightarrow> string + float64" where
  "demo_calculate today g e pay x =
     (case pay of PlainVanillaPayoff ty k \<Rightarrow>
        if date_le (lastDate x) today then Inr (Fin 0)
        else if \<not> demo_strike_ok e k then Inl ''strike must be non-negative''
        else
          (case demo_zeroRate (riskFreeRate (engine_process e)) (lastDate x) Actual360
                  Continuous Annual of
             Inl msg \<Rightarrow> Inl msg
           | Inr r \<Rightarrow>
               let p = engine_process e;
                   t = demo_yearFraction Actual360 today (lastDate x);
                   v = demo_vol (blackVolatility p);
                   intrinsic = np_clip_min0
                     (case ty of Call \<Rightarrow> fsub (x0 p) k | Put \<Rightarrow> fsub k (x0 p));
                   npv = np_divide (fadd intrinsic (fmul v t)) (fadd (Fin 1) (fmul r t))
               in Inr (demo_value g ty npv v t)))"

definition demo_multipath :: "path_generator \<Rightarrow> nat \<Rightarrow> float64 list list" where
  "demo_multipath gen k = [[Fin 100, Fin (100 + real k)], [Fin 100, Fin 98]]"

definition demo_probit :: "real \<Rightarrow> real" where
  "demo_probit q = q - 1 / 2"

definition demo :: quantlib where
  "demo =
     \<lparr>yearFraction = demo_yearFraction,
      zeroRate = demo_zeroRate,
      blackVol = (\<lambda>v d k. demo_blackVol v k),
      blackVol_time = (\<lambda>v t k. demo_blackVol v k),
      rejects = demo_rejects,
      calculate = demo_calculate,
      next_seed = Suc,
      multipath = demo_multipath,
      probit = demo_probit\<rparr>"

definition w0 :: world where
  "w0 = \<lparr>evaluationDate = Date 1 1 2000, seed_source = 0, events = []\<rparr>"

definition jan1 :: datetime where
  "jan1 = \<lparr>year = 2025, month = 1, day = 1\<rparr>"

definition jul1 :: datetime where
  "jul1 = \<lparr>year = 2025, month = 7, day = 1\<rparr>"

definition oct1 :: datetime where
  "oct1 = \<lparr>year = 2025, month = 10, day = 1\<rparr>"

definition flat_vol :: vol_ts where
  "flat_vol = BlackConstantVol (Date 1 1 2025) UnitedKingdom (Fin (1 / 5)) Actual365Fixed"

definition flat_curve :: yield_ts where
  "flat_curve = FlatForward (Date 1 1 2025) (Fin (1 / 20)) Actual365Fixed Continuous Annual"

definition zero_curve :: yield_ts where
  "zero_curve = FlatForward (Date 1 1 2025) (Fin 0) Actual365Fixed Continuous Annual"

text \<open>A curve whose rate to July is 1/20 and whose rate to October is 1/10.\<close>

definition node_curve :: yield_ts where
  "node_curve =
     ForwardCurve [Date 1 7 2025, Date 1 10 2025] [Fin (1 / 20), Fin (1 / 10)] Actual365Fixed
       UnitedKingdom"

definition given_process :: process where
  "given_process = \<lparr>x0 = Fin 100, riskFreeRate = flat_curve, blackVolatility = flat_vol\<rparr>"

definition american_call :: vanilla_option where
  "american_call =
     setPricingEngine
       (VanillaOption (PlainVanillaPayoff Call (Fin 100))
          (AmericanExercise (Date 1 1 2025) (Date 1 7 2025)))
       (BinomialCRRVanillaEngine given_process 100)"

definition w2025 :: world where
  "w2025 = \<lparr>evaluationDate = Date 1 1 2025, seed_source = 0, events = []\<rparr>"

section \<open>Running the sequencing\<close>

lemma py_bind_ret [simp]: "py_bind (ret x) f = f x"
  by (simp add: py_bind_def ret_def)

lemma py_bind_raise [simp]: "py_bind (raise e) f = raise e"
  by (simp add: py_bind_def raise_def)

lemma py_bind_assoc: "py_bind (py_bind m f) g = py_bind m (\<lambda>x. py_bind (f x) g)"
  by (auto simp: py_bind_def fun_eq_iff split: prod.splits sum.splits)

lemma py_bind_InrE:
  assumes "py_bind m f w = (Inr y, w')"
  obtains x w1 where "m w = (Inr x, w1)" and "f x w1 = (Inr y, w')"
  using assms by (auto simp: py_bind_def split: prod.splits sum.splits)

lemma py_bind_InrI:
  assumes "m w = (Inr x, w1)" and "f x w1 = r"
  shows "py_bind m f w = r"
  using assms by (simp add: py_bind_def)

lemma py_bind_Inl:
  assumes "py_bind m f w = (Inl e, w')"
  shows "m w = (Inl e, w') \<or> (\<exists>x w1. m w = (Inr x, w1) \<and> f x w1 = (Inl e, w'))"
  using assms by (auto simp: py_bind_def split: prod.splits sum.splits)

lemma py_bind_snd_pure:
  assumes "\<And>x w. snd (g x w) = w"
  shows "snd (py_bind m g w) = snd (m w)"
  using assms by (simp add: py_bind_def split: prod.splits sum.splits)

lemma ret_Inr [simp]: "ret x w = (Inr y, w') \<longleftrightarrow> y = x \<and> w' = w"
  by (auto simp: ret_def)

lemma raise_Inr [simp]: "raise e w \<noteq> (Inr y, w')"
  by (simp add: raise_def)

lemma set_evaluationDate_run [simp]:
  "set_evaluationDate d w = (Inr (), w\<lparr>evaluationDate := d\<rparr>)"
  by (simp add: set_evaluationDate_def)

lemma get_evaluationDate_run [simp]:
  "get_evaluationDate w = (Inr (evaluationDate w), w)"
  by (simp add: get_evaluationDate_def)

lemma BlackProcess_run [simp]:
  "BlackProcess q yc vol w =
     (Inr \<lparr>x0 = q, riskFreeRate = yc, blackVolatility = vol\<rparr>,
      w\<lparr>events := events w @ [New_BlackProcess \<lparr>x0 = q, riskFreeRate = yc, blackVolatility = vol\<rparr>]\<rparr>)"
  by (simp add: BlackProcess_def Let_def)

lemma construct_Inr [simp]:
  "construct L obj w = (Inr u, w') \<longleftrightarrow> rejects L obj = None \<and> w' = w"
  by (auto simp: construct_def ret_def raise_def split: option.splits)

lemma construct_ok: "rejects L obj = None \<Longrightarrow> construct L obj = ret ()"
  by (simp add: construct_def)

lemma construct_refused: "rejects L obj = Some msg \<Longrightarrow> construct L obj = raise (RuntimeError msg)"
  by (simp add: construct_def)

lemma py_to_ql_date_Inr [simp]:
  "py_to_ql_date L date w = (Inr d, w') \<longleftrightarrow>
     rejects L (Obj_date (Date_of date)) = None \<and> d = Date_of date \<and> w' = w"
  by (auto simp: py_to_ql_date_def Date_of_def elim!: py_bind_InrE intro: py_bind_InrI)

lemma py_to_ql_date_ok:
  "rejects L (Obj_date (Date_of date)) = None \<Longrightarrow> py_to_ql_date L date = ret (Date_of date)"
  by (simp add: py_to_ql_date_def Date_of_def construct_ok)

lemma py_to_ql_date_refused:
  "rejects L (Obj_date (Date_of date)) = Some msg \<Longrightarrow>
     py_to_ql_date L date = raise (RuntimeError msg)"
  by (simp add: py_to_ql_date_def Date_of_def construct_refused)

lemma query_Inr [simp]: "query answer w = (Inr v, w') \<longleftrightarrow> answer = Inr v \<and> w' = w"
  by (auto simp: query_def ret_def raise_def split: sum.splits)

lemma query_ok [simp]: "query (Inr v) = ret v"
  by (simp add: query_def)

lemma query_refused [simp]: "query (Inl msg) = raise (RuntimeError msg)"
  by (simp add: query_def)

lemma py_int_Inr [simp]: "py_int steps w = (Inr n, w') \<longleftrightarrow> steps = Some n \<and> w' = w"
  by (auto simp: py_int_def ret_def raise_def split: option.splits)

lemma py_int_Some [simp]: "py_int (Some n) = ret n"
  by (simp add: py_int_def)

lemma py_int_None [simp]: "py_int None = raise TypeError"
  by (simp add: py_int_def)

lemma as_Size_ok: "0 \<le> n \<Longrightarrow> n < 2 ^ 64 \<Longrightarrow> as_Size n = ret n"
  by (simp add: as_Size_def)

lemma BinomialCRRVanillaEngine_py_Inr [simp]:
  "BinomialCRRVanillaEngine_py L p n w = (Inr e, w') \<longleftrightarrow>
     0 \<le> n \<and> n < 2 ^ 64 \<and> rejects L (Obj_engine (BinomialCRRVanillaEngine p n)) = None \<and>
     e = BinomialCRRVanillaEngine p n \<and>
     w' = w\<lparr>events := events w @ [New_BinomialCRRVanillaEngine p n]\<rparr>"
  by (auto simp: BinomialCRRVanillaEngine_py_def as_Size_def py_bind_def construct_def ret_def
        raise_def split: option.splits)

lemma BinomialCRRVanillaEngine_py_run:
  assumes "0 \<le> n" and "n < 2 ^ 64"
    and "rejects L (Obj_engine (BinomialCRRVanillaEngine p n)) = None"
  shows "BinomialCRRVanillaEngine_py L p n w =
     (Inr (BinomialCRRVanillaEngine p n),
      w\<lparr>events := events w @ [New_BinomialCRRVanillaEngine p n]\<rparr>)"
  using assms by simp

lemma py_truediv_Inr [simp]:
  "py_truediv a b w = (Inr q, w') \<longleftrightarrow>
     b \<noteq> PyFloat (Fin 0) \<and> q = np_divide a (scalar_val b) \<and> w' = w"
  by (cases b) (auto simp: ret_def raise_def)

lemma py_truediv_run:
  "b \<noteq> PyFloat (Fin 0) \<Longrightarrow> py_truediv a b = ret (np_divide a (scalar_val b))"
  by (cases b) auto

lemma py_truediv_zero: "py_truediv a (PyFloat (Fin 0)) = raise ZeroDivisionError"
  by simp

lemma fmul_two_nonzero: "fmul (Fin 2) b = Fin 0 \<longleftrightarrow> b = Fin 0"
  by (cases b) auto

lemma scalar_mul_two_nonzero: "scalar_mul (Fin 2) b = PyFloat (Fin 0) \<longleftrightarrow> b = PyFloat (Fin 0)"
  by (cases b) (auto simp: fmul_two_nonzero)

lemma scalar_val_mul [simp]: "scalar_val (scalar_mul k b) = fmul k (scalar_val b)"
  by (cases b) simp_all

lemma result_of_Inr [simp]:
  "result_of L g (setPricingEngine opt e) w = (Inr v, w') \<longleftrightarrow>
     calculate L (evaluationDate w) g e (opt_payoff opt) (opt_exercise opt) = Inr v \<and>
     w' = w\<lparr>events := events w @ [Calculate g (opt_payoff opt) (opt_exercise opt) e]\<rparr>"
  by (auto simp: result_of_def setPricingEngine_def split: sum.splits)

lemma result_of_run:
  "result_of L g (setPricingEngine opt e) w =
     (case calculate L (evaluationDate w) g e (opt_payoff opt) (opt_exercise opt) of
        Inl msg \<Rightarrow> Inl (RuntimeError msg) | Inr v \<Rightarrow> Inr v,
      w\<lparr>events := events w @ [Calculate g (opt_payoff opt) (opt_exercise opt) e]\<rparr>)"
  by (simp add: result_of_def setPricingEngine_def)

lemma setPricingEngine_twice [simp]:
  "setPricingEngine (setPricingEngine opt e) e' = setPricingEngine opt e'"
  by (simp add: setPricingEngine_def)

lemma setPricingEngine_sel [simp]:
  "opt_payoff (setPricingEngine opt e) = opt_payoff opt"
  "opt_exercise (setPricingEngine opt e) = opt_exercise opt"
  "opt_engine (setPricingEngine opt e) = Some e"
  by (simp_all add: setPricingEngine_def)

text \<open>
  What a returning call of an estimator has done: read the volatility (the rate), built
  the two shifted processes and the two engines on \<open>int(steps)\<close> steps, priced the
  option passed in with each, and divided.
\<close>

lemma estimate_vega_Inr:
  assumes "estimate_vega L opt p vol k ex steps bump w = (Inr (est, opt'), w')"
  shows "\<exists>n v pu pd.
     steps = Some n \<and> 0 \<le> n \<and> n < 2 ^ 64 \<and> bump \<noteq> PyFloat (Fin 0) \<and>
     blackVol L vol ex k = Inr v \<and>
     calculate L (evaluationDate w) G_NPV
       (BinomialCRRVanillaEngine (vega_process (evaluationDate w) p vol v (scalar_val bump)) n)
       (opt_payoff opt) (opt_exercise opt) = Inr pu \<and>
     calculate L (evaluationDate w) G_NPV
       (BinomialCRRVanillaEngine
          (vega_process (evaluationDate w) p vol v (fneg (scalar_val bump))) n)
       (opt_payoff opt) (opt_exercise opt) = Inr pd \<and>
     est = np_divide (fsub pu pd) (fmul (Fin 2) (scalar_val bump)) \<and>
     opt' = setPricingEngine opt
       (BinomialCRRVanillaEngine
          (vega_process (evaluationDate w) p vol v (fneg (scalar_val bump))) n) \<and>
     w' = w\<lparr>events := events w @
       [New_BlackProcess (vega_process (evaluationDate w) p vol v (scalar_val bump)),
        New_BinomialCRRVanillaEngine
          (vega_process (evaluationDate w) p vol v (scalar_val bump)) n,
        Calculate G_NPV (opt_payoff opt) (opt_exercise opt)
          (BinomialCRRVanillaEngine
             (vega_process (evaluationDate w) p vol v (scalar_val bump)) n),
        New_BlackProcess (vega_process (evaluationDate w) p vol v (fneg (scalar_val bump))),
        New_BinomialCRRVanillaEngine
          (vega_process (evaluationDate w) p vol v (fneg (scalar_val bump))) n,
        Calculate G_NPV (opt_payoff opt) (opt_exercise opt)
          (BinomialCRRVanillaEngine
             (vega_process (evaluationDate w) p vol v (fneg (scalar_val bump))) n)]\<rparr>"
  using assms unfolding estimate_vega_def Let_def
  by (auto elim!: py_bind_InrE simp: vega_process_def fsub_def scalar_mul_two_nonzero)

lemma estimate_rho_Inr:
  assumes "estimate_rho L opt p yc vol ex steps bump w = (Inr (est, opt'), w')"
  shows "\<exists>n r pu pd.
     steps = Some n \<and> 0 \<le> n \<and> n < 2 ^ 64 \<and> bump \<noteq> PyFloat (Fin 0) \<and>
     zeroRate L yc ex (yc_dayCounter yc) Continuous Annual = Inr r \<and>
     calculate L (evaluationDate w) G_NPV
       (BinomialCRRVanillaEngine (rho_process (evaluationDate w) p yc vol r (scalar_val bump)) n)
       (opt_payoff opt) (opt_exercise opt) = Inr pu \<and>
     calculate L (evaluationDate w) G_NPV
       (BinomialCRRVanillaEngine
          (rho_process (evaluationDate w) p yc vol r (fneg (scalar_val bump))) n)
       (opt_payoff opt) (opt_exercise opt) = Inr pd \<and>
     est = np_divide (fsub pu pd) (fmul (Fin 2) (scalar_val bump)) \<and>
     opt' = setPricingEngine opt
       (BinomialCRRVanillaEngine
          (rho_process (evaluationDate w) p yc vol r (fneg (scalar_val bump))) n) \<and>
     w' = w\<lparr>events := events w @
       [New_BlackProcess (rho_process (evaluationDate w) p yc vol r (scalar_val bump)),
        New_BinomialCRRVanillaEngine
          (rho_process (evaluationDate w) p yc vol r (scalar_val bump)) n,
        Calculate G_NPV (opt_payoff opt) (opt_exercise opt)
          (BinomialCRRVanillaEngine
             (rho_process (evaluationDate w) p yc vol r (scalar_val bump)) n),
        New_BlackProcess (rho_process (evaluationDate w) p yc vol r (fneg (scalar_val bump))),
        New_BinomialCRRVanillaEngine
          (rho_process (evaluationDate w) p yc vol r (fneg (scalar_val bump))) n,
        Calculate G_NPV (opt_payoff opt) (opt_exercise opt)
          (BinomialCRRVanillaEngine
             (rho_process (evaluationDate w) p yc vol r (fneg (scalar_val bump))) n)]\<rparr>"
  using assms unfolding estimate_rho_def Let_def
  by (auto elim!: py_bind_InrE simp: rho_process_def fsub_def scalar_mul_two_nonzero)

section \<open>Evaluating on the small instance\<close>

lemmas demo_simps = demo_def demo_yearFraction_def demo_calculate_def demo_multipath_def
  demo_probit_def w0_def jan1_def jul1_def oct1_def flat_vol_def flat_curve_def

lemmas run_simps = py_bind_def ret_def raise_def lift_def set_evaluationDate_def
  get_evaluationDate_def BlackProcess_def construct_def query_def result_of_def py_int_def
  as_Size_def BinomialCRRVanillaEngine_py_def setPricingEngine_def VanillaOption_def
  py_to_ql_date_def Date_of_def UniformRandomGenerator_def

lemmas option_simps = comdty_vanilla_option_def result_frame_def estimate_vega_def
  estimate_rho_def estimate_vega_bump_def estimate_rho_bump_def Let_def upper_def
  upper_char_def fsub_def DataFrame_def greek_index_def

lemma upper_AMERICAN: "upper ''AMERICAN'' = ''AMERICAN''"
  by (simp add: upper_def upper_char_def)

lemma upper_PUT: "upper ''PUT'' \<noteq> ''CALL''"
  by (simp add: upper_def upper_char_def)

lemma upper_EUROPEAN: "upper ''EUROPEAN'' \<noteq> ''AMERICAN''"
  by (simp add: upper_def upper_char_def)

section \<open>C1: which tree the American numbers come from\<close>

lemma comdty_vanilla_option_american:
  assumes "upper exercise_type = ''AMERICAN''"
    and "comdty_vanilla_option L evaluation_date expiry_date forward_price strike_price
           option_type exercise_type steps volatility yield_curve w = (Inr fr, w')"
  shows "\<exists>n v r npv delta gamma theta vega_price_up vega_price_down rho_price_up
           rho_price_down.
     steps = Some n \<and>
     blackVol L volatility (Date_of expiry_date) strike_price = Inr v \<and>
     zeroRate L yield_curve (Date_of expiry_date) (yc_dayCounter yield_curve) Continuous
       Annual = Inr r \<and>
     fr = DataFrame
            [npv, delta, gamma, theta,
             np_divide (fsub vega_price_up vega_price_down) (fmul (Fin 2) (Fin (1 / 100))),
             np_divide (fsub rho_price_up rho_price_down) (fmul (Fin 2) (Fin (1 / 1000)))]
            option_type greek_index \<and>
     (let today = Date_of evaluation_date;
          expiry = Date_of expiry_date;
          given = \<lparr>x0 = forward_price, riskFreeRate = yield_curve,
                    blackVolatility = volatility\<rparr>;
          vega_up = BinomialCRRVanillaEngine
            (vega_process today given volatility v (Fin (1 / 100))) n;
          vega_down = BinomialCRRVanillaEngine
            (vega_process today given volatility v (Fin (- (1 / 100)))) n;
          rho_up = BinomialCRRVanillaEngine
            (rho_process today given yield_curve volatility r (Fin (1 / 1000))) n;
          rho_down = BinomialCRRVanillaEngine
            (rho_process today given yield_curve volatility r (Fin (- (1 / 1000)))) n;
          payoff = PlainVanillaPayoff (if upper option_type = ''CALL'' then Call else Put)
            strike_price;
          exercise = AmericanExercise today expiry
      in calculate L today G_NPV rho_down payoff exercise = Inr npv \<and>
         calculate L today G_delta rho_down payoff exercise = Inr delta \<and>
         calculate L today G_gamma rho_down payoff exercise = Inr gamma \<and>
         calculate L today G_theta rho_down payoff exercise = Inr theta \<and>
         calculate L today G_NPV vega_up payoff exercise = Inr vega_price_up \<and>
         calculate L today G_NPV vega_down payoff exercise = Inr vega_price_down \<and>
         calculate L today G_NPV rho_up payoff exercise = Inr rho_price_up \<and>
         calculate L today G_NPV rho_down payoff exercise = Inr rho_price_down \<and>
         events w' = events w @
           [New_BlackProcess given,
            New_BinomialCRRVanillaEngine given n,
            New_BlackProcess (engine_process vega_up),
            New_BinomialCRRVanillaEngine (engine_process vega_up) n,
            Calculate G_NPV payoff exercise vega_up,
            New_BlackProcess (engine_process vega_down),
            New_BinomialCRRVanillaEngine (engine_process vega_down) n,
            Calculate G_NPV payoff exercise vega_down,
            New_BlackProcess (engine_process rho_up),
            New_BinomialCRRVanillaEngine (engine_process rho_up) n,
            Calculate G_NPV payoff exercise rho_up,
            New_BlackProcess (engine_process rho_down),
            New_BinomialCRRVanillaEngine (engine_process rho_down) n,
            Calculate G_NPV payoff exercise rho_down,
            Calculate G_NPV payoff exercise rho_down,
            Calculate G_delta payoff exercise rho_down,
            Calculate G_gamma payoff exercise rho_down,
            Calculate G_theta payoff exercise rho_down])"
  using assms unfolding comdty_vanilla_option_def result_frame_def Let_def
  apply (auto elim!: py_bind_InrE dest!: estimate_vega_Inr estimate_rho_Inr
        simp: VanillaOption_def estimate_vega_bump_def estimate_rho_bump_def)
  done

text \<open>
  C1. The claim: for an AMERICAN call the reported price, delta, gamma and theta are those
  of the CRR tree built from the caller's unbumped forward, surface and curve. What the
  code does: \<open>estimate_vega\<close> and \<open>estimate_rho\<close> set the pricing engine of the one
  option object, and the engine \<open>estimate_rho\<close> sets last stays. Whenever an AMERICAN call
  returns a frame, its price, delta, gamma and theta are the library's results for the
  tree on the process with the flat rate \<open>r - 0.001\<close>, where \<open>r\<close> is the zero rate the
  given curve answers at the expiry; the engine on the unbumped process is built and
  never asked for a value; vega and rho are the two difference quotients.
\<close>

theorem comdty_vanilla_option_american_engine:
  assumes "upper exercise_type = ''AMERICAN''"
    and "comdty_vanilla_option L evaluation_date expiry_date forward_price strike_price
           option_type exercise_type steps volatility yield_curve w = (Inr fr, w')"
  shows "\<exists>n v r npv delta gamma theta vega_price_up vega_price_down rho_price_up
           rho_price_down.
     steps = Some n \<and>
     blackVol L volatility (Date_of expiry_date) strike_price = Inr v \<and>
     zeroRate L yield_curve (Date_of expiry_date) (yc_dayCounter yield_curve) Continuous
       Annual = Inr r \<and>
     fr = DataFrame
            [npv, delta, gamma, theta,
             np_divide (fsub vega_price_up vega_price_down) (fmul (Fin 2) (Fin (1 / 100))),
             np_divide (fsub rho_price_up rho_price_down) (fmul (Fin 2) (Fin (1 / 1000)))]
            option_type greek_index \<and>
     (let today = Date_of evaluation_date;
          expiry = Date_of expiry_date;
          given = \<lparr>x0 = forward_price, riskFreeRate = yield_curve,
                    blackVolatility = volatility\<rparr>;
          vega_up = BinomialCRRVanillaEngine
            (vega_process today given volatility v (Fin (1 / 100))) n;
          vega_down = BinomialCRRVanillaEngine
            (vega_process today given volatility v (Fin (- (1 / 100)))) n;
          rho_up = BinomialCRRVanillaEngine
            (rho_process today given yield_curve volatility r (Fin (1 / 1000))) n;
          rho_down = BinomialCRRVanillaEngine
            (rho_process today given yield_curve volatility r (Fin (- (1 / 1000)))) n;
          payoff = PlainVanillaPayoff (if upper option_type = ''CALL'' then Call else Put)
            strike_price;
          exercise = AmericanExercise today expiry
      in calculate L today G_NPV rho_down payoff exercise = Inr npv \<and>
         calculate L today G_delta rho_down payoff exercise = Inr delta \<and>
         calculate L today G_gamma rho_down payoff exercise = Inr gamma \<and>
         calculate L today G_theta rho_down payoff exercise = Inr theta \<and>
         calculate L today G_NPV vega_up payoff exercise = Inr vega_price_up \<and>
         calculate L today G_NPV vega_down payoff exercise = Inr vega_price_down \<and>
         calculate L today G_NPV rho_up payoff exercise = Inr rho_price_up \<and>
         calculate L today G_NPV rho_down payoff exercise = Inr rho_price_down \<and>
         events w' = events w @
           [New_BlackProcess given,
            New_BinomialCRRVanillaEngine given n,
            New_BlackProcess (engine_process vega_up),
            New_BinomialCRRVanillaEngine (engine_process vega_up) n,
            Calculate G_NPV payoff exercise vega_up,
            New_BlackProcess (engine_process vega_down),
            New_BinomialCRRVanillaEngine (engine_process vega_down) n,
            Calculate G_NPV payoff exercise vega_down,
            New_BlackProcess (engine_process rho_up),
            New_BinomialCRRVanillaEngine (engine_process rho_up) n,
            Calculate G_NPV payoff exercise rho_up,
            New_BlackProcess (engine_process rho_down),
            New_BinomialCRRVanillaEngine (engine_process rho_down) n,
            Calculate G_NPV payoff exercise rho_down,
            Calculate G_NPV payoff exercise rho_down,
            Calculate G_delta payoff exercise rho_down,
            Calculate G_gamma payoff exercise rho_down,
            Calculate G_theta payoff exercise rho_down])"
  using assms by (rule comdty_vanilla_option_american)

text \<open>
  The failing input of C1 on the small instance: evaluation 2025-01-01, expiry 2025-07-01,
  forward 100, strike 100, CALL, AMERICAN, 100 steps, flat volatility 0.2, flat rate 0.05.
  The reported price is the value under the rate 0.049, not the value under the given
  curve.
\<close>

theorem comdty_vanilla_option_american_engine_witness:
  "upper ''AMERICAN'' = ''AMERICAN'' \<and>
   fst (comdty_vanilla_option demo jan1 jul1 (Fin 100) (Fin 100) ''CALL'' ''AMERICAN''
          (Some 100) flat_vol flat_curve w0) =
     Inr (DataFrame
            [Fin (200 / 2049), Fin (1 / 2), Fin 0, Fin (- (1 / 5)), Fin (20 / 41),
             Fin (- (200000 / 4202499))] ''CALL'' greek_index) \<and>
   calculate demo (Date 1 1 2025) G_NPV
     (BinomialCRRVanillaEngine
        (rho_process (Date 1 1 2025)
           \<lparr>x0 = Fin 100, riskFreeRate = flat_curve, blackVolatility = flat_vol\<rparr>
           flat_curve flat_vol (Fin (1 / 20)) (Fin (- (1 / 1000)))) 100)
     (PlainVanillaPayoff Call (Fin 100)) (AmericanExercise (Date 1 1 2025) (Date 1 7 2025)) =
     Inr (Fin (200 / 2049)) \<and>
   calculate demo (Date 1 1 2025) G_NPV
     (BinomialCRRVanillaEngine
        \<lparr>x0 = Fin 100, riskFreeRate = flat_curve, blackVolatility = flat_vol\<rparr> 100)
     (PlainVanillaPayoff Call (Fin 100)) (AmericanExercise (Date 1 1 2025) (Date 1 7 2025)) =
     Inr (Fin (4 / 41))"
proof -
  let ?run = "comdty_vanilla_option demo jan1 jul1 (Fin 100) (Fin 100) ''CALL'' ''AMERICAN''
          (Some 100) flat_vol flat_curve w0"
  let ?fr = "DataFrame
            [Fin (200 / 2049), Fin (1 / 2), Fin 0, Fin (- (1 / 5)), Fin (20 / 41),
             Fin (- (200000 / 4202499))] ''CALL'' greek_index"
  have f: "fst ?run = Inr ?fr"
    by (simp add: option_simps run_simps demo_simps)
  then have run: "?run = (Inr ?fr, snd ?run)"
    by (metis prod.collapse)
  have base: "calculate demo (Date 1 1 2025) G_NPV
     (BinomialCRRVanillaEngine
        \<lparr>x0 = Fin 100, riskFreeRate = flat_curve, blackVolatility = flat_vol\<rparr> 100)
     (PlainVanillaPayoff Call (Fin 100)) (AmericanExercise (Date 1 1 2025) (Date 1 7 2025)) =
     Inr (Fin (4 / 41))"
    by (simp add: demo_simps fsub_def)
  have r: "zeroRate demo flat_curve (Date 1 7 2025) (yc_dayCounter flat_curve) Continuous Annual =
      Inr (Fin (1 / 20))"
    by (simp add: demo_simps)
  from comdty_vanilla_option_american_engine [OF upper_AMERICAN run]
  have "calculate demo (Date 1 1 2025) G_NPV
     (BinomialCRRVanillaEngine
        (rho_process (Date 1 1 2025)
           \<lparr>x0 = Fin 100, riskFreeRate = flat_curve, blackVolatility = flat_vol\<rparr>
           flat_curve flat_vol (Fin (1 / 20)) (Fin (- (1 / 1000)))) 100)
     (PlainVanillaPayoff Call (Fin 100)) (AmericanExercise (Date 1 1 2025) (Date 1 7 2025)) =
     Inr (Fin (200 / 2049))"
    by (auto simp: Let_def DataFrame_def Date_of_def jan1_def jul1_def upper_def
          upper_char_def r)
  with f base upper_AMERICAN show ?thesis by simp
qed

section \<open>C2: unrecognised option types and exercise styles\<close>

lemma DataFrame_relabel: "(DataFrame d c i)\<lparr>columns := [c']\<rparr> = DataFrame d c' i"
  by (simp add: DataFrame_def)

lemma comdty_vanilla_option_as_put:
  assumes "upper option_type \<noteq> ''CALL''"
  shows "comdty_vanilla_option L ev ex F K option_type et steps vol yc =
         py_bind (comdty_vanilla_option L ev ex F K ''PUT'' et steps vol yc)
           (\<lambda>fr. ret (fr\<lparr>columns := [option_type]\<rparr>))"
  using assms upper_PUT
  by (cases "upper et = ''AMERICAN''")
    (simp_all add: comdty_vanilla_option_def result_frame_def Let_def py_bind_assoc split_def
        DataFrame_relabel)

lemma comdty_vanilla_option_as_european:
  assumes "upper exercise_type \<noteq> ''AMERICAN''"
  shows "comdty_vanilla_option L ev ex F K ot exercise_type steps vol yc =
         comdty_vanilla_option L ev ex F K ot ''EUROPEAN'' steps vol yc"
  using assms upper_EUROPEAN
  by (simp add: comdty_vanilla_option_def)

text \<open>
  C2 as the code has it. \<open>comdty_vanilla_option\<close> never rejects an option type or an
  exercise style: an option type whose upper-case form is not \<open>CALL\<close> is priced exactly
  as \<open>PUT\<close> is, the column carrying the caller's label, and an exercise style whose
  upper-case form is not \<open>AMERICAN\<close> is priced exactly as \<open>EUROPEAN\<close> is.
\<close>

theorem comdty_vanilla_option_unrecognized:
  "(upper option_type \<noteq> ''CALL'' \<longrightarrow>
      comdty_vanilla_option L ev ex F K option_type et steps vol yc =
      py_bind (comdty_vanilla_option L ev ex F K ''PUT'' et steps vol yc)
        (\<lambda>fr. ret (fr\<lparr>columns := [option_type]\<rparr>))) \<and>
   (upper exercise_type \<noteq> ''AMERICAN'' \<longrightarrow>
      comdty_vanilla_option L ev ex F K ot exercise_type steps vol yc =
      comdty_vanilla_option L ev ex F K ot ''EUROPEAN'' steps vol yc)"
  using comdty_vanilla_option_as_put comdty_vanilla_option_as_european by blast

theorem comdty_vanilla_option_unrecognized_witness:
  "upper ''STRADDLE'' \<noteq> ''CALL'' \<and> upper ''BERMUDAN'' \<noteq> ''AMERICAN'' \<and>
   comdty_vanilla_option demo jan1 jul1 (Fin 100) (Fin 110) ''STRADDLE'' ''AMERICAN''
     (Some 100) flat_vol flat_curve =
   py_bind (comdty_vanilla_option demo jan1 jul1 (Fin 100) (Fin 110) ''PUT'' ''AMERICAN''
     (Some 100) flat_vol flat_curve) (\<lambda>fr. ret (fr\<lparr>columns := [''STRADDLE'']\<rparr>)) \<and>
   comdty_vanilla_option demo jan1 jul1 (Fin 100) (Fin 110) ''PUT'' ''BERMUDAN''
     (Some 100) flat_vol flat_curve =
   comdty_vanilla_option demo jan1 jul1 (Fin 100) (Fin 110) ''PUT'' ''EUROPEAN''
     (Some 100) flat_vol flat_curve \<and>
   fst (comdty_vanilla_option demo jan1 jul1 (Fin 100) (Fin 110) ''PUT'' ''EUROPEAN''
     (Some 100) flat_vol flat_curve w0) =
   Inr (DataFrame [Fin (404 / 41), Fin (- (1 / 2)), Fin 0, Fin (- (1 / 5)), Fin (1 / 2),
          Fin (- (202 / 41))] ''PUT'' greek_index)"
proof -
  have a: "upper ''STRADDLE'' \<noteq> ''CALL''" and b: "upper ''BERMUDAN'' \<noteq> ''AMERICAN''"
    by (simp_all add: upper_def upper_char_def)
  have c: "fst (comdty_vanilla_option demo jan1 jul1 (Fin 100) (Fin 110) ''PUT'' ''EUROPEAN''
     (Some 100) flat_vol flat_curve w0) =
   Inr (DataFrame [Fin (404 / 41), Fin (- (1 / 2)), Fin 0, Fin (- (1 / 5)), Fin (1 / 2),
          Fin (- (202 / 41))] ''PUT'' greek_index)"
    by (simp add: option_simps run_simps demo_simps)
  from comdty_vanilla_option_unrecognized
    [of "''STRADDLE''" demo jan1 jul1 "Fin 100" "Fin 110" "''AMERICAN''" "Some 100" flat_vol
      flat_curve "''BERMUDAN''" "''PUT''"]
    a b c
  show ?thesis by simp
qed

text \<open>
  C2 as stated fails at option type \<open>STRADDLE\<close>, exercise style \<open>BERMUDAN\<close>: the call
  returns a frame, and what the library was asked to value is a put with European
  exercise on the analytic engine.
\<close>

theorem comdty_vanilla_option_unrecognized_counterexample:
  "fst (comdty_vanilla_option demo jan1 jul1 (Fin 100) (Fin 110) ''STRADDLE'' ''BERMUDAN''
     (Some 100) flat_vol flat_curve w0) =
   Inr (DataFrame [Fin (404 / 41), Fin (- (1 / 2)), Fin 0, Fin (- (1 / 5)), Fin (1 / 2),
          Fin (- (202 / 41))] ''STRADDLE'' greek_index) \<and>
   events (snd (comdty_vanilla_option demo jan1 jul1 (Fin 100) (Fin 110) ''STRADDLE''
     ''BERMUDAN'' (Some 100) flat_vol flat_curve w0)) =
   New_BlackProcess \<lparr>x0 = Fin 100, riskFreeRate = flat_curve, blackVolatility = flat_vol\<rparr> #
   map (\<lambda>g. Calculate g (PlainVanillaPayoff Put (Fin 110)) (EuropeanExercise (Date 1 7 2025))
          (AnalyticEuropeanEngine
             \<lparr>x0 = Fin 100, riskFreeRate = flat_curve, blackVolatility = flat_vol\<rparr>))
     [G_vega, G_rho, G_NPV, G_delta, G_gamma, G_theta]"
  by (simp add: option_simps run_simps demo_simps)

section \<open>C3: the spread\<close>

lemma result_frame_shape:
  assumes "result_frame L opt v r ot w = (Inr f, w')"
  shows "\<exists>a b c d. f = DataFrame [a, b, c, d, v, r] ot greek_index"
  using assms unfolding result_frame_def
  apply (auto elim!: py_bind_InrE)
  apply ((rule exI)+, rule refl)
  done

lemma comdty_vanilla_option_shape:
  assumes "comdty_vanilla_option L ev ex F K ot et steps vol yc w = (Inr f, w')"
  shows "\<exists>a b c d e g. f = DataFrame [a, b, c, d, e, g] ot greek_index"
  using assms unfolding comdty_vanilla_option_def Let_def
  apply (auto elim!: py_bind_InrE dest!: result_frame_shape split: if_splits)
     apply ((rule exI)+, rule refl)+
  done

lemma spread_frames:
  assumes "long = DataFrame [l1, l2, l3, l4, l5, l6] ot greek_index"
    and "short = DataFrame [s1, s2, s3, s4, s5, s6] ot greek_index"
  shows "py_bind (rename_column long ''_LONG'') (\<lambda>option_price_long.
         py_bind (rename_column short ''_SHORT'') (\<lambda>option_price_short.
         py_bind (DataFrame2 (array_sub (vals option_price_long) (vals option_price_short))
                    (ot @ ''_SPREAD'') greek_index) (\<lambda>structure.
         concat_axis1 [option_price_long, option_price_short, structure]))) =
         ret \<lparr>index = greek_index,
              columns = [ot @ ''_LONG'', ot @ ''_SHORT'', ot @ ''_SPREAD''],
              vals = [[l1, s1, fsub l1 s1], [l2, s2, fsub l2 s2], [l3, s3, fsub l3 s3],
                      [l4, s4, fsub l4 s4], [l5, s5, fsub l5 s5], [l6, s6, fsub l6 s6]]\<rparr>"
  unfolding assms
  by (simp add: rename_column_def DataFrame_def DataFrame2_def array_sub_def concat_axis1_def
        greek_index_def)

text \<open>
  C3. When both legs are priced (the long strike first, the short strike in the state the
  first call leaves), \<open>comdty_vanilla_option_spread\<close> returns the three columns
  \<open>_LONG\<close>, \<open>_SHORT\<close> and \<open>_SPREAD\<close> of the option type, and on each of the six rows
  the spread entry is the long entry minus the short entry.
\<close>

theorem comdty_vanilla_option_spread_long_minus_short:
  assumes "comdty_vanilla_option L ev ex F strike_long ot et steps vol yc w = (Inr long, w1)"
    and "comdty_vanilla_option L ev ex F strike_short ot et steps vol yc w1 = (Inr short, w2)"
  shows "\<exists>l1 l2 l3 l4 l5 l6 s1 s2 s3 s4 s5 s6.
     long = DataFrame [l1, l2, l3, l4, l5, l6] ot greek_index \<and>
     short = DataFrame [s1, s2, s3, s4, s5, s6] ot greek_index \<and>
     comdty_vanilla_option_spread L ev ex F strike_long strike_short ot et steps vol yc w =
       (Inr \<lparr>index = [''price'', ''delta'', ''gamma'', ''theta'', ''vega'', ''rho''],
              columns = [ot @ ''_LONG'', ot @ ''_SHORT'', ot @ ''_SPREAD''],
              vals = [[l1, s1, fsub l1 s1], [l2, s2, fsub l2 s2], [l3, s3, fsub l3 s3],
                      [l4, s4, fsub l4 s4], [l5, s5, fsub l5 s5], [l6, s6, fsub l6 s6]]\<rparr>,
        w2)"
proof -
  from comdty_vanilla_option_shape [OF assms(1)] obtain l1 l2 l3 l4 l5 l6
    where long: "long = DataFrame [l1, l2, l3, l4, l5, l6] ot greek_index"
    by blast
  from comdty_vanilla_option_shape [OF assms(2)] obtain s1 s2 s3 s4 s5 s6
    where short: "short = DataFrame [s1, s2, s3, s4, s5, s6] ot greek_index"
    by blast
  have "comdty_vanilla_option_spread L ev ex F strike_long strike_short ot et steps vol yc w =
       (Inr \<lparr>index = greek_index,
              columns = [ot @ ''_LONG'', ot @ ''_SHORT'', ot @ ''_SPREAD''],
              vals = [[l1, s1, fsub l1 s1], [l2, s2, fsub l2 s2], [l3, s3, fsub l3 s3],
                      [l4, s4, fsub l4 s4], [l5, s5, fsub l5 s5], [l6, s6, fsub l6 s6]]\<rparr>,
        w2)"
    unfolding comdty_vanilla_option_spread_def
    by (simp add:
        py_bind_InrI [where m = "comdty_vanilla_option L ev ex F strike_long ot et steps vol yc"
          and w = w, OF assms(1) refl]
        py_bind_InrI [where m = "comdty_vanilla_option L ev ex F strike_short ot et steps vol yc"
          and w = w1, OF assms(2) refl]
        spread_frames [OF long short] ret_def)
  with long short show ?thesis
    unfolding greek_index_def by blast
qed


theorem comdty_vanilla_option_spread_long_minus_short_witness:
  "fst (comdty_vanilla_option demo jan1 jul1 (Fin 105) (Fin 100) ''CALL'' ''EUROPEAN'' None
          flat_vol flat_curve w0) =
     Inr (DataFrame [Fin (204 / 41), Fin (1 / 2), Fin 0, Fin (- (1 / 5)), Fin (1 / 2),
            Fin (- (102 / 41))] ''CALL'' greek_index) \<and>
   fst (comdty_vanilla_option demo jan1 jul1 (Fin 105) (Fin 110) ''CALL'' ''EUROPEAN'' None
          flat_vol flat_curve w0) =
     Inr (DataFrame [Fin (4 / 41), Fin (1 / 2), Fin 0, Fin (- (1 / 5)), Fin (1 / 2),
            Fin (- (2 / 41))] ''CALL'' greek_index) \<and>
   fst (comdty_vanilla_option_spread demo jan1 jul1 (Fin 105) (Fin 100) (Fin 110) ''CALL''
          ''EUROPEAN'' None flat_vol flat_curve w0) =
     Inr \<lparr>index = [''price'', ''delta'', ''gamma'', ''theta'', ''vega'', ''rho''],
           columns = [''CALL_LONG'', ''CALL_SHORT'', ''CALL_SPREAD''],
           vals = [[Fin (204 / 41), Fin (4 / 41), Fin (200 / 41)],
                   [Fin (1 / 2), Fin (1 / 2), Fin 0],
                   [Fin 0, Fin 0, Fin 0],
                   [Fin (- (1 / 5)), Fin (- (1 / 5)), Fin 0],
                   [Fin (1 / 2), Fin (1 / 2), Fin 0],
                   [Fin (- (102 / 41)), Fin (- (2 / 41)), Fin (- (100 / 41))]]\<rparr>"
proof -
  let ?long = "comdty_vanilla_option demo jan1 jul1 (Fin 105) (Fin 100) ''CALL'' ''EUROPEAN''
     None flat_vol flat_curve"
  let ?short = "comdty_vanilla_option demo jan1 jul1 (Fin 105) (Fin 110) ''CALL'' ''EUROPEAN''
     None flat_vol flat_curve"
  let ?fl = "DataFrame [Fin (204 / 41), Fin (1 / 2), Fin 0, Fin (- (1 / 5)), Fin (1 / 2),
            Fin (- (102 / 41))] ''CALL'' greek_index"
  let ?fs = "DataFrame [Fin (4 / 41), Fin (1 / 2), Fin 0, Fin (- (1 / 5)), Fin (1 / 2),
            Fin (- (2 / 41))] ''CALL'' greek_index"
  have l: "fst (?long w0) = Inr ?fl"
    by (simp add: option_simps run_simps demo_simps)
  have s0: "fst (?short w0) = Inr ?fs"
    by (simp add: option_simps run_simps demo_simps)
  have s: "fst (?short (snd (?long w0))) = Inr ?fs"
    by (simp add: option_simps run_simps demo_simps)
  have run1: "?long w0 = (Inr ?fl, snd (?long w0))"
    using l by (metis prod.collapse)
  have run2: "?short (snd (?long w0)) = (Inr ?fs, snd (?short (snd (?long w0))))"
    using s by (metis prod.collapse)
  from comdty_vanilla_option_spread_long_minus_short [OF run1 run2]
  have "fst (comdty_vanilla_option_spread demo jan1 jul1 (Fin 105) (Fin 100) (Fin 110) ''CALL''
          ''EUROPEAN'' None flat_vol flat_curve w0) =
     Inr \<lparr>index = [''price'', ''delta'', ''gamma'', ''theta'', ''vega'', ''rho''],
           columns = [''CALL_LONG'', ''CALL_SHORT'', ''CALL_SPREAD''],
           vals = [[Fin (204 / 41), Fin (4 / 41), Fin (200 / 41)],
                   [Fin (1 / 2), Fin (1 / 2), Fin 0],
                   [Fin 0, Fin 0, Fin 0],
                   [Fin (- (1 / 5)), Fin (- (1 / 5)), Fin 0],
                   [Fin (1 / 2), Fin (1 / 2), Fin 0],
                   [Fin (- (102 / 41)), Fin (- (2 / 41)), Fin (- (100 / 41))]]\<rparr>"
    by (auto simp: DataFrame_def fsub_def)
  with l s0 show ?thesis by simp
qed

section \<open>C4: the strike implied by a delta\<close>

lemmas frame_simps = rename_column_def DataFrame_def DataFrame2_def concat_axis1_def
  concat_axis0_def array_sub_def array_add_def array_scale_def greek_index_def

lemma comdty_vanilla_option_european:
  assumes "upper exercise_type \<noteq> ''AMERICAN''"
    and "comdty_vanilla_option L evaluation_date expiry_date forward_price strike_price
           option_type exercise_type steps volatility yield_curve w = (Inr fr, w')"
  shows "\<exists>npv delta gamma theta vega rho.
     fr = DataFrame [npv, delta, gamma, theta, vega, rho] option_type greek_index \<and>
     (let today = Date_of evaluation_date;
          given = \<lparr>x0 = forward_price, riskFreeRate = yield_curve,
                    blackVolatility = volatility\<rparr>;
          payoff = PlainVanillaPayoff (if upper option_type = ''CALL'' then Call else Put)
            strike_price;
          exercise = EuropeanExercise (Date_of expiry_date)
      in calculate L today G_NPV (AnalyticEuropeanEngine given) payoff exercise = Inr npv \<and>
         calculate L today G_delta (AnalyticEuropeanEngine given) payoff exercise = Inr delta \<and>
         calculate L today G_gamma (AnalyticEuropeanEngine given) payoff exercise = Inr gamma \<and>
         calculate L today G_theta (AnalyticEuropeanEngine given) payoff exercise = Inr theta \<and>
         calculate L today G_vega (AnalyticEuropeanEngine given) payoff exercise = Inr vega \<and>
         calculate L today G_rho (AnalyticEuropeanEngine given) payoff exercise = Inr rho \<and>
         events w' = events w @ New_BlackProcess given #
           map (\<lambda>g. Calculate g payoff exercise (AnalyticEuropeanEngine given))
             [G_vega, G_rho, G_NPV, G_delta, G_gamma, G_theta])"
  using assms unfolding comdty_vanilla_option_def result_frame_def Let_def
  by (auto elim!: py_bind_InrE simp: VanillaOption_def)

lemma delta_frames:
  assumes "option_frame = DataFrame [a, b, c, d, e, g] ot greek_index"
  shows "concat_axis0 [option_frame, DataFrame [h, i, j, k, l] ot
           [''d1'', ''riskfree_rate'', ''volatility_atm'', ''years_to_maturity'',
            ''strike_price'']] =
         ret \<lparr>index = [''price'', ''delta'', ''gamma'', ''theta'', ''vega'', ''rho'', ''d1'',
                 ''riskfree_rate'', ''volatility_atm'', ''years_to_maturity'', ''strike_price''],
              columns = [ot],
              vals = [[a], [b], [c], [d], [e], [g], [h], [i], [j], [k], [l]]\<rparr>"
  unfolding assms by (simp add: frame_simps)


lemma comdty_vanilla_option_delta_unfold:
  assumes "rejects L (Obj_date (Date_of ex)) = None"
    and "rejects L (Obj_date (Date_of ev)) = None"
    and "yearFraction L (yc_dayCounter yc) (Date_of ev) (Date_of ex) = Fin t"
    and "0 \<le> t"
    and "zeroRate L yc (Date_of ex) (yc_dayCounter yc) Continuous Annual = Inr (Fin r)"
    and "blackVol_time L vol (Fin t) (Fin f) = Inr (Fin v)"
    and "q = (if upper ot = ''CALL'' then d * exp (r * t) else d * exp (r * t) + 1)"
    and "0 < q" and "q < 1"
  shows "comdty_vanilla_option_delta L ev ex (Fin f) (Fin d) ot vol yc =
     py_bind (comdty_vanilla_option L ev ex (Fin f)
                (Fin (f / exp (v * sqrt t * probit L q - 1 / 2 * v\<^sup>2 * t)))
                ot ''EUROPEAN'' None vol yc)
       (\<lambda>option_frame. concat_axis0
          [option_frame,
           DataFrame [Fin (probit L q), Fin r, Fin v, Fin t,
                      Fin (f / exp (v * sqrt t * probit L q - 1 / 2 * v\<^sup>2 * t))] ot
             [''d1'', ''riskfree_rate'', ''volatility_atm'', ''years_to_maturity'',
              ''strike_price'']])"
proof (cases "upper ot = ''CALL''")
  case True
  with assms have "norm_ppf L (fmul (Fin d) (np_exp (fmul (Fin r) (Fin t)))) = Fin (probit L q)"
    by simp
  with True assms(1-6) show ?thesis
    unfolding comdty_vanilla_option_delta_def Let_def
    by (simp add: fsub_def py_to_ql_date_ok)
next
  case False
  with assms have "norm_ppf L (fadd (fmul (Fin d) (np_exp (fmul (Fin r) (Fin t)))) (Fin 1)) =
      Fin (probit L q)"
    by simp
  with False assms(1-6) show ?thesis
    unfolding comdty_vanilla_option_delta_def Let_def
    by (simp add: fsub_def py_to_ql_date_ok)
qed

text \<open>
  C4. With both dates accepted by the library, a finite time to maturity \<open>t \<ge> 0\<close> (the year fraction of the curve's day
  counter), a finite continuously compounded zero rate \<open>r\<close> to expiry and a finite ATM
  volatility \<open>v\<close> at \<open>(t, forward)\<close>, both answered by the library, and \<open>q = delta * exp(r t)\<close> for a CALL,
  \<open>q = delta * exp(r t) + 1\<close> otherwise, inside (0, 1): \<open>d1\<close> is the normal quantile of
  \<open>q\<close>, the strike is \<open>forward / exp(v * sqrt t * d1 - v\<^sup>2 t / 2)\<close>, the function is the
  pricing of the EUROPEAN option at that strike followed by the five extra rows, and
  whenever it returns, the six Greek rows are the library's results for the analytic
  European engine and a European exercise, and no other valuation was requested.
\<close>

theorem comdty_vanilla_option_delta_in_domain:
  assumes "rejects L (Obj_date (Date_of ex)) = None"
    and "rejects L (Obj_date (Date_of ev)) = None"
    and "yearFraction L (yc_dayCounter yc) (Date_of ev) (Date_of ex) = Fin t"
    and "0 \<le> t"
    and "zeroRate L yc (Date_of ex) (yc_dayCounter yc) Continuous Annual = Inr (Fin r)"
    and "blackVol_time L vol (Fin t) (Fin f) = Inr (Fin v)"
    and "q = (if upper ot = ''CALL'' then d * exp (r * t) else d * exp (r * t) + 1)"
    and "0 < q" and "q < 1"
    and "d1 = probit L q"
    and "strike = f / exp (v * sqrt t * d1 - 1 / 2 * v\<^sup>2 * t)"
  shows "comdty_vanilla_option_delta L ev ex (Fin f) (Fin d) ot vol yc =
           py_bind (comdty_vanilla_option L ev ex (Fin f) (Fin strike) ot ''EUROPEAN'' None
                      vol yc)
             (\<lambda>option_frame. concat_axis0
                [option_frame,
                 DataFrame [Fin d1, Fin r, Fin v, Fin t, Fin strike] ot
                   [''d1'', ''riskfree_rate'', ''volatility_atm'', ''years_to_maturity'',
                    ''strike_price'']]) \<and>
         (comdty_vanilla_option_delta L ev ex (Fin f) (Fin d) ot vol yc w = (Inr fr, w') \<longrightarrow>
            (\<exists>npv delta gamma theta vega rho.
               fr = \<lparr>index = [''price'', ''delta'', ''gamma'', ''theta'', ''vega'', ''rho'',
                              ''d1'', ''riskfree_rate'', ''volatility_atm'',
                              ''years_to_maturity'', ''strike_price''],
                      columns = [ot],
                      vals = [[npv], [delta], [gamma], [theta], [vega], [rho], [Fin d1],
                              [Fin r], [Fin v], [Fin t], [Fin strike]]\<rparr> \<and>
               (let today = Date_of ev;
                    given = \<lparr>x0 = Fin f, riskFreeRate = yc, blackVolatility = vol\<rparr>;
                    payoff = PlainVanillaPayoff (if upper ot = ''CALL'' then Call else Put)
                      (Fin strike);
                    exercise = EuropeanExercise (Date_of ex)
                in calculate L today G_NPV (AnalyticEuropeanEngine given) payoff exercise =
                     Inr npv \<and>
                   calculate L today G_delta (AnalyticEuropeanEngine given) payoff exercise =
                     Inr delta \<and>
                   calculate L today G_gamma (AnalyticEuropeanEngine given) payoff exercise =
                     Inr gamma \<and>
                   calculate L today G_theta (AnalyticEuropeanEngine given) payoff exercise =
                     Inr theta \<and>
                   calculate L today G_vega (AnalyticEuropeanEngine given) payoff exercise =
                     Inr vega \<and>
                   calculate L today G_rho (AnalyticEuropeanEngine given) payoff exercise =
                     Inr rho \<and>
                   events w' = events w @ New_BlackProcess given #
                     map (\<lambda>g. Calculate g payoff exercise (AnalyticEuropeanEngine given))
                       [G_vega, G_rho, G_NPV, G_delta, G_gamma, G_theta])))"
proof (intro conjI impI)
  note eq = comdty_vanilla_option_delta_unfold [OF assms(1-9), folded assms(10), folded assms(11)]
  show "comdty_vanilla_option_delta L ev ex (Fin f) (Fin d) ot vol yc =
           py_bind (comdty_vanilla_option L ev ex (Fin f) (Fin strike) ot ''EUROPEAN'' None
                      vol yc)
             (\<lambda>option_frame. concat_axis0
                [option_frame,
                 DataFrame [Fin d1, Fin r, Fin v, Fin t, Fin strike] ot
                   [''d1'', ''riskfree_rate'', ''volatility_atm'', ''years_to_maturity'',
                    ''strike_price'']])"
    by (rule eq)
  assume "comdty_vanilla_option_delta L ev ex (Fin f) (Fin d) ot vol yc w = (Inr fr, w')"
  then obtain option_frame w1
    where run: "comdty_vanilla_option L ev ex (Fin f) (Fin strike) ot ''EUROPEAN'' None vol yc w =
        (Inr option_frame, w1)"
      and cat: "concat_axis0
          [option_frame,
           DataFrame [Fin d1, Fin r, Fin v, Fin t, Fin strike] ot
             [''d1'', ''riskfree_rate'', ''volatility_atm'', ''years_to_maturity'',
              ''strike_price'']] w1 = (Inr fr, w')"
    unfolding eq by (rule py_bind_InrE)
  from comdty_vanilla_option_european [OF upper_EUROPEAN run]
  obtain npv delta gamma theta vega rho
    where fr: "option_frame = DataFrame [npv, delta, gamma, theta, vega, rho] ot greek_index"
      and rest: "(let today = Date_of ev;
                    given = \<lparr>x0 = Fin f, riskFreeRate = yc, blackVolatility = vol\<rparr>;
                    payoff = PlainVanillaPayoff (if upper ot = ''CALL'' then Call else Put)
                      (Fin strike);
                    exercise = EuropeanExercise (Date_of ex)
                in calculate L today G_NPV (AnalyticEuropeanEngine given) payoff exercise =
                     Inr npv \<and>
                   calculate L today G_delta (AnalyticEuropeanEngine given) payoff exercise =
                     Inr delta \<and>
                   calculate L today G_gamma (AnalyticEuropeanEngine given) payoff exercise =
                     Inr gamma \<and>
                   calculate L today G_theta (AnalyticEuropeanEngine given) payoff exercise =
                     Inr theta \<and>
                   calculate L today G_vega (AnalyticEuropeanEngine given) payoff exercise =
                     Inr vega \<and>
                   calculate L today G_rho (AnalyticEuropeanEngine given) payoff exercise =
                     Inr rho \<and>
                   events w1 = events w @ New_BlackProcess given #
                     map (\<lambda>g. Calculate g payoff exercise (AnalyticEuropeanEngine given))
                       [G_vega, G_rho, G_NPV, G_delta, G_gamma, G_theta])"
    by blast
  from cat [unfolded delta_frames [OF fr]]
  have "fr = \<lparr>index = [''price'', ''delta'', ''gamma'', ''theta'', ''vega'', ''rho'',
                              ''d1'', ''riskfree_rate'', ''volatility_atm'',
                              ''years_to_maturity'', ''strike_price''],
                      columns = [ot],
                      vals = [[npv], [delta], [gamma], [theta], [vega], [rho], [Fin d1],
                              [Fin r], [Fin v], [Fin t], [Fin strike]]\<rparr>"
    and "w' = w1"
    by simp_all
  with rest show "\<exists>npv delta gamma theta vega rho.
               fr = \<lparr>index = [''price'', ''delta'', ''gamma'', ''theta'', ''vega'', ''rho'',
                              ''d1'', ''riskfree_rate'', ''volatility_atm'',
                              ''years_to_maturity'', ''strike_price''],
                      columns = [ot],
                      vals = [[npv], [delta], [gamma], [theta], [vega], [rho], [Fin d1],
                              [Fin r], [Fin v], [Fin t], [Fin strike]]\<rparr> \<and>
               (let today = Date_of ev;
                    given = \<lparr>x0 = Fin f, riskFreeRate = yc, blackVolatility = vol\<rparr>;
                    payoff = PlainVanillaPayoff (if upper ot = ''CALL'' then Call else Put)
                      (Fin strike);
                    exercise = EuropeanExercise (Date_of ex)
                in calculate L today G_NPV (AnalyticEuropeanEngine given) payoff exercise =
                     Inr npv \<and>
                   calculate L today G_delta (AnalyticEuropeanEngine given) payoff exercise =
                     Inr delta \<and>
                   calculate L today G_gamma (AnalyticEuropeanEngine given) payoff exercise =
                     Inr gamma \<and>
                   calculate L today G_theta (AnalyticEuropeanEngine given) payoff exercise =
                     Inr theta \<and>
                   calculate L today G_vega (AnalyticEuropeanEngine given) payoff exercise =
                     Inr vega \<and>
                   calculate L today G_rho (AnalyticEuropeanEngine given) payoff exercise =
                     Inr rho \<and>
                   events w' = events w @ New_BlackProcess given #
                     map (\<lambda>g. Calculate g payoff exercise (AnalyticEuropeanEngine given))
                       [G_vega, G_rho, G_NPV, G_delta, G_gamma, G_theta])"
    by blast
qed


theorem comdty_vanilla_option_delta_in_domain_witness:
  "rejects demo (Obj_date (Date_of jul1)) = None \<and>
   rejects demo (Obj_date (Date_of jan1)) = None \<and>
   yearFraction demo (yc_dayCounter zero_curve) (Date_of jan1) (Date_of jul1) =
     Fin (1 / 2) \<and>
   zeroRate demo zero_curve (Date_of jul1) (yc_dayCounter zero_curve) Continuous Annual =
     Inr (Fin 0) \<and>
   blackVol_time demo flat_vol (Fin (1 / 2)) (Fin 100) = Inr (Fin (1 / 5)) \<and>
   (1 / 2 :: real) = (if upper ''CALL'' = ''CALL'' then 1 / 2 * exp (0 * (1 / 2))
                      else 1 / 2 * exp (0 * (1 / 2)) + 1) \<and>
   (0 :: real) = probit demo (1 / 2) \<and>
   comdty_vanilla_option_delta demo jan1 jul1 (Fin 100) (Fin (1 / 2)) ''CALL'' flat_vol
     zero_curve =
   py_bind (comdty_vanilla_option demo jan1 jul1 (Fin 100) (Fin (100 / exp (- (1 / 100))))
              ''CALL'' ''EUROPEAN'' None flat_vol zero_curve)
     (\<lambda>option_frame. concat_axis0
        [option_frame,
         DataFrame [Fin 0, Fin 0, Fin (1 / 5), Fin (1 / 2), Fin (100 / exp (- (1 / 100)))]
           ''CALL''
           [''d1'', ''riskfree_rate'', ''volatility_atm'', ''years_to_maturity'',
            ''strike_price'']]) \<and>
   (\<exists>npv delta gamma theta vega rho.
      fst (comdty_vanilla_option_delta demo jan1 jul1 (Fin 100) (Fin (1 / 2)) ''CALL'' flat_vol
             zero_curve w0) =
      Inr \<lparr>index = [''price'', ''delta'', ''gamma'', ''theta'', ''vega'', ''rho'',
                     ''d1'', ''riskfree_rate'', ''volatility_atm'',
                     ''years_to_maturity'', ''strike_price''],
            columns = [''CALL''],
            vals = [[npv], [delta], [gamma], [theta], [vega], [rho], [Fin 0],
                    [Fin 0], [Fin (1 / 5)], [Fin (1 / 2)], [Fin (100 / exp (- (1 / 100)))]]\<rparr>)"
proof -
  let ?run = "comdty_vanilla_option_delta demo jan1 jul1 (Fin 100) (Fin (1 / 2)) ''CALL''
     flat_vol zero_curve"
  have d1: "rejects demo (Obj_date (Date_of jul1)) = None"
    and d2: "rejects demo (Obj_date (Date_of jan1)) = None"
    by (simp_all add: demo_simps Date_of_def)
  have h1: "yearFraction demo (yc_dayCounter zero_curve) (Date_of jan1)
      (Date_of jul1) = Fin (1 / 2)"
    by (simp add: demo_simps zero_curve_def Date_of_def)
  have h2: "(0::real) \<le> 1 / 2" and h6: "(0::real) < 1 / 2" and h7: "(1 / 2 :: real) < 1"
    by simp_all
  have h3: "zeroRate demo zero_curve (Date_of jul1) (yc_dayCounter zero_curve)
      Continuous Annual = Inr (Fin 0)"
    by (simp add: demo_simps zero_curve_def)
  have h4: "blackVol_time demo flat_vol (Fin (1 / 2)) (Fin 100) = Inr (Fin (1 / 5))"
    by (simp add: demo_simps)
  have h5: "(1 / 2 :: real) = (if upper ''CALL'' = ''CALL'' then 1 / 2 * exp (0 * (1 / 2))
                      else 1 / 2 * exp (0 * (1 / 2)) + 1)"
    by (simp add: upper_def upper_char_def)
  have h8: "(0 :: real) = probit demo (1 / 2)"
    by (simp add: demo_simps)
  have h9: "100 / exp (- (1 / 100)) =
      (100 :: real) / exp (1 / 5 * sqrt (1 / 2) * 0 - 1 / 2 * (1 / 5)\<^sup>2 * (1 / 2))"
    by (simp add: power2_eq_square)
  note T = comdty_vanilla_option_delta_in_domain [OF d1 d2 h1 h2 h3 h4 h5 h6 h7 h8 h9]
  have "\<exists>fr. fst (?run w0) = Inr fr"
    unfolding T [THEN conjunct1]
    by (simp add: option_simps run_simps demo_simps frame_simps zero_curve_def)
  then obtain fr where run: "?run w0 = (Inr fr, snd (?run w0))"
    by (metis prod.collapse)
  from T [THEN conjunct2, rule_format, OF run]
  obtain npv delta gamma theta vega rho where
    "fr = \<lparr>index = [''price'', ''delta'', ''gamma'', ''theta'', ''vega'', ''rho'',
                     ''d1'', ''riskfree_rate'', ''volatility_atm'',
                     ''years_to_maturity'', ''strike_price''],
            columns = [''CALL''],
            vals = [[npv], [delta], [gamma], [theta], [vega], [rho], [Fin 0],
                    [Fin 0], [Fin (1 / 5)], [Fin (1 / 2)], [Fin (100 / exp (- (1 / 100)))]]\<rparr>"
    by blast
  moreover have "fst (?run w0) = Inr fr"
    by (subst run) simp
  ultimately have "\<exists>npv delta gamma theta vega rho.
      fst (?run w0) =
      Inr \<lparr>index = [''price'', ''delta'', ''gamma'', ''theta'', ''vega'', ''rho'',
                     ''d1'', ''riskfree_rate'', ''volatility_atm'',
                     ''years_to_maturity'', ''strike_price''],
            columns = [''CALL''],
            vals = [[npv], [delta], [gamma], [theta], [vega], [rho], [Fin 0],
                    [Fin 0], [Fin (1 / 5)], [Fin (1 / 2)], [Fin (100 / exp (- (1 / 100)))]]\<rparr>"
    by blast
  with d1 d2 h1 h3 h4 h5 h8 T [THEN conjunct1] show ?thesis
    by blast
qed

section \<open>C8: no precondition is checked\<close>

lemma quietI:
  assumes "\<And>w. \<exists>rest. events (snd (m w)) = events w @ rest"
    and "\<And>w. evaluationDate (snd (m w)) = evaluationDate w"
    and "\<And>w e. fst (m w) = Inl e \<Longrightarrow> E e"
  shows "quiet E m"
  unfolding quiet_def using assms by (auto split: sum.splits)

lemma quietD:
  assumes "quiet E m"
  shows "\<exists>rest. events (snd (m w)) = events w @ rest"
    and "evaluationDate (snd (m w)) = evaluationDate w"
    and "fst (m w) = Inl e \<Longrightarrow> E e"
proof -
  from assms have *: "(\<exists>rest. events (snd (m w)) = events w @ rest) \<and>
      evaluationDate (snd (m w)) = evaluationDate w \<and>
      (case fst (m w) of Inl e \<Rightarrow> E e | Inr _ \<Rightarrow> True)"
    unfolding quiet_def by (rule spec)
  from * show "\<exists>rest. events (snd (m w)) = events w @ rest" by simp
  from * show "evaluationDate (snd (m w)) = evaluationDate w" by simp
  from * show "fst (m w) = Inl e \<Longrightarrow> E e" by simp
qed

lemma quiet_ret: "quiet E (ret x)"
  by (simp add: quiet_def ret_def)

lemma quiet_raise: "E e \<Longrightarrow> quiet E (raise e)"
  by (simp add: quiet_def raise_def)

lemma quiet_bind:
  assumes "quiet E m" and "\<And>x. quiet E (f x)"
  shows "quiet E (py_bind m f)"
proof (rule quietI)
  fix w
  obtain r w1 where mw: "m w = (r, w1)"
    by (cases "m w")
  from quietD(1) [OF assms(1), of w] mw obtain rest1 where e1: "events w1 = events w @ rest1"
    by auto
  from quietD(2) [OF assms(1), of w] mw have d1: "evaluationDate w1 = evaluationDate w"
    by simp
  show "\<exists>rest. events (snd (py_bind m f w)) = events w @ rest"
  proof (cases r)
    case (Inl e)
    with mw e1 show ?thesis by (simp add: py_bind_def)
  next
    case (Inr x)
    from quietD(1) [OF assms(2), of x w1] obtain rest2
      where "events (snd (f x w1)) = events w1 @ rest2"
      by auto
    with mw Inr e1 show ?thesis by (simp add: py_bind_def)
  qed
  show "evaluationDate (snd (py_bind m f w)) = evaluationDate w"
  proof (cases r)
    case (Inl e)
    with mw d1 show ?thesis by (simp add: py_bind_def)
  next
    case (Inr x)
    with mw d1 quietD(2) [OF assms(2), of x w1] show ?thesis by (simp add: py_bind_def)
  qed
  fix e
  assume fails: "fst (py_bind m f w) = Inl e"
  show "E e"
  proof (cases r)
    case (Inl e')
    with mw fails have "fst (m w) = Inl e" by (simp add: py_bind_def)
    then show ?thesis by (rule quietD(3) [OF assms(1)])
  next
    case (Inr x)
    with mw fails have "fst (f x w1) = Inl e" by (simp add: py_bind_def)
    then show ?thesis by (rule quietD(3) [OF assms(2)])
  qed
qed

lemma quiet_mono:
  assumes "quiet E m" and "\<And>e. E e \<Longrightarrow> E' e"
  shows "quiet E' m"
  using assms unfolding quiet_def by (auto split: sum.splits)

lemma quiet_case_prod:
  assumes "\<And>a b. quiet E (f a b)"
  shows "quiet E (case x of (a, b) \<Rightarrow> f a b)"
  using assms by (cases x) simp

lemma quiet_construct:
  assumes "\<And>msg. E (RuntimeError msg)"
  shows "quiet E (construct L obj)"
  using assms by (simp add: construct_def quiet_ret quiet_raise split: option.splits)

lemma quiet_py_to_ql_date:
  assumes "\<And>msg. E (RuntimeError msg)"
  shows "quiet E (py_to_ql_date L date)"
  unfolding py_to_ql_date_def
  by (intro quiet_bind quiet_construct quiet_ret assms)

lemma quiet_query:
  assumes "\<And>msg. E (RuntimeError msg)"
  shows "quiet E (query answer)"
  using assms by (cases answer) (simp_all add: quiet_ret quiet_raise)

lemma quiet_result_of:
  assumes "\<And>msg. E (RuntimeError msg)"
  shows "quiet E (result_of L g opt)"
  using assms
  by (auto simp: quiet_def result_of_def raise_def split: option.splits sum.splits)

lemma quiet_BlackProcess: "quiet E (BlackProcess q yc vol)"
  by (simp add: quiet_def)

lemma quiet_get_evaluationDate: "quiet E get_evaluationDate"
  by (simp add: quiet_def)

lemma quiet_py_truediv: "b \<noteq> PyFloat (Fin 0) \<Longrightarrow> quiet E (py_truediv a b)"
  by (simp add: py_truediv_run quiet_ret)

lemma quiet_result_frame:
  assumes "\<And>msg. E (RuntimeError msg)"
  shows "quiet E (result_frame L opt v r ot)"
  unfolding result_frame_def
  by (intro quiet_bind quiet_result_of quiet_ret assms)

lemma pricing_error_RuntimeError [simp]: "pricing_error steps (RuntimeError msg)"
  by (simp add: pricing_error_def)

lemma quiet_engine: "quiet (pricing_error (Some n)) (BinomialCRRVanillaEngine_py L p n)"
  by (auto simp: quiet_def BinomialCRRVanillaEngine_py_def as_Size_def py_bind_def
        construct_def ret_def raise_def pricing_error_def split: option.splits)

lemma quiet_estimate_vega:
  assumes "bump \<noteq> PyFloat (Fin 0)"
  shows "quiet (pricing_error steps) (estimate_vega L opt p vol k ex steps bump)"
proof (cases steps)
  case None
  show ?thesis
    unfolding estimate_vega_def Let_def None py_int_None py_bind_raise
    by (intro quiet_bind quiet_get_evaluationDate quiet_query quiet_BlackProcess quiet_raise)
      (simp_all add: pricing_error_def)
next
  case (Some n)
  show ?thesis
    unfolding estimate_vega_def Let_def Some py_int_Some py_bind_ret
    using assms
    by (intro quiet_bind quiet_get_evaluationDate quiet_query quiet_BlackProcess quiet_engine
        quiet_result_of quiet_py_truediv quiet_ret)
      (simp_all add: scalar_mul_two_nonzero)
qed

lemma quiet_estimate_rho:
  assumes "bump \<noteq> PyFloat (Fin 0)"
  shows "quiet (pricing_error steps) (estimate_rho L opt p yc vol ex steps bump)"
proof (cases steps)
  case None
  show ?thesis
    unfolding estimate_rho_def Let_def None py_int_None py_bind_raise
    by (intro quiet_bind quiet_get_evaluationDate quiet_query quiet_BlackProcess quiet_raise)
      (simp_all add: pricing_error_def)
next
  case (Some n)
  show ?thesis
    unfolding estimate_rho_def Let_def Some py_int_Some py_bind_ret
    using assms
    by (intro quiet_bind quiet_get_evaluationDate quiet_query quiet_BlackProcess quiet_engine
        quiet_result_of quiet_py_truediv quiet_ret)
      (simp_all add: scalar_mul_two_nonzero)
qed

lemma quiet_american_tail:
  "quiet (pricing_error steps)
     (py_bind (construct L (Obj_exercise x)) (\<lambda>_.
      py_bind (py_int steps) (\<lambda>n.
      py_bind (BinomialCRRVanillaEngine_py L p n) (\<lambda>engine.
      py_bind (estimate_vega L (setPricingEngine opt engine) p vol k d steps
                 estimate_vega_bump) (\<lambda>(option_vega, opt).
      py_bind (estimate_rho L opt p yc vol d steps estimate_rho_bump) (\<lambda>(option_rho, opt).
      result_frame L opt option_vega option_rho ot))))))"
proof (cases steps)
  case None
  show ?thesis
    unfolding None py_int_None py_bind_raise
    by (intro quiet_bind quiet_construct quiet_raise) (simp_all add: pricing_error_def)
next
  case (Some n)
  show ?thesis
    unfolding Some py_int_Some py_bind_ret
    by (intro quiet_bind quiet_construct quiet_engine quiet_estimate_vega quiet_estimate_rho
        quiet_case_prod quiet_result_frame)
      (simp_all add: estimate_vega_bump_def estimate_rho_bump_def)
qed

lemma quiet_european_tail:
  "quiet (\<lambda>e. \<exists>msg. e = RuntimeError msg)
     (py_bind (result_of L G_vega opt) (\<lambda>option_vega.
      py_bind (result_of L G_rho opt) (\<lambda>option_rho.
        result_frame L opt option_vega option_rho ot)))"
  by (intro quiet_bind quiet_result_of quiet_result_frame) simp_all

lemma after_process:
  assumes "\<And>p. quiet E (f p)"
  shows "(\<exists>rest.
     events (snd (py_bind (set_evaluationDate d) (\<lambda>_. py_bind (BlackProcess F yc vol) f) w)) =
       events w @ New_BlackProcess \<lparr>x0 = F, riskFreeRate = yc, blackVolatility = vol\<rparr> # rest) \<and>
     evaluationDate
       (snd (py_bind (set_evaluationDate d) (\<lambda>_. py_bind (BlackProcess F yc vol) f) w)) = d \<and>
     (case fst (py_bind (set_evaluationDate d) (\<lambda>_. py_bind (BlackProcess F yc vol) f) w) of
        Inl e \<Rightarrow> E e
      | Inr _ \<Rightarrow> True)"
  using assms [of "\<lparr>x0 = F, riskFreeRate = yc, blackVolatility = vol\<rparr>"]
  unfolding quiet_def
  apply (simp add: py_bind_def)
  apply (drule spec [of _ "w\<lparr>evaluationDate := d, events := events w @
      [New_BlackProcess \<lparr>x0 = F, riskFreeRate = yc, blackVolatility = vol\<rparr>]\<rparr>"])
  apply auto
  done

lemma comdty_vanilla_option_after_process:
  assumes "rejects L (Obj_date (Date_of evaluation_date)) = None"
    and "rejects L (Obj_date (Date_of expiry_date)) = None"
  shows "(\<exists>rest.
     events (snd (comdty_vanilla_option L evaluation_date expiry_date forward_price
                    strike_price option_type exercise_type steps volatility yield_curve w)) =
       events w @
       New_BlackProcess \<lparr>x0 = forward_price, riskFreeRate = yield_curve,
                          blackVolatility = volatility\<rparr> # rest) \<and>
     evaluationDate (snd (comdty_vanilla_option L evaluation_date expiry_date forward_price
                    strike_price option_type exercise_type steps volatility yield_curve w)) =
       Date_of evaluation_date \<and>
     (case fst (comdty_vanilla_option L evaluation_date expiry_date forward_price
                    strike_price option_type exercise_type steps volatility yield_curve w) of
        Inl e \<Rightarrow>
          (\<exists>msg. e = RuntimeError msg) \<or>
          (upper exercise_type = ''AMERICAN'' \<and> steps = None \<and> e = TypeError) \<or>
          (upper exercise_type = ''AMERICAN'' \<and>
           (\<exists>n. steps = Some n \<and> (n < 0 \<or> 2 ^ 64 \<le> n)) \<and> e = OverflowError)
      | Inr fr \<Rightarrow> True)"
proof (cases "upper exercise_type = ''AMERICAN''")
  case True
  show ?thesis
    unfolding comdty_vanilla_option_def Let_def py_to_ql_date_ok [OF assms(1)]
      py_to_ql_date_ok [OF assms(2)] py_bind_ret if_P [OF True]
    by (rule after_process, rule quiet_mono, rule quiet_american_tail)
      (auto simp: pricing_error_def True)
next
  case False
  show ?thesis
    unfolding comdty_vanilla_option_def Let_def py_to_ql_date_ok [OF assms(1)]
      py_to_ql_date_ok [OF assms(2)] py_bind_ret if_not_P [OF False]
    by (rule after_process, rule quiet_mono, rule quiet_european_tail) auto
qed

lemma comdty_vanilla_option_date_refused:
  assumes "rejects L (Obj_date (Date_of evaluation_date)) = Some msg"
  shows "comdty_vanilla_option L evaluation_date expiry_date forward_price strike_price
           option_type exercise_type steps volatility yield_curve w =
         (Inl (RuntimeError msg), w)"
  unfolding comdty_vanilla_option_def py_to_ql_date_refused [OF assms] py_bind_raise
  by (simp add: raise_def)

lemma comdty_vanilla_option_expiry_refused:
  assumes "rejects L (Obj_date (Date_of evaluation_date)) = None"
    and "rejects L (Obj_date (Date_of expiry_date)) = Some msg"
  shows "comdty_vanilla_option L evaluation_date expiry_date forward_price strike_price
           option_type exercise_type steps volatility yield_curve w =
         (Inl (RuntimeError msg), w\<lparr>evaluationDate := Date_of evaluation_date\<rparr>)"
  unfolding comdty_vanilla_option_def py_to_ql_date_ok [OF assms(1)]
    py_to_ql_date_refused [OF assms(2)] py_bind_raise py_bind_ret
  by (simp add: raise_def py_bind_def)

text \<open>
  C8 as the code has it. \<open>comdty_vanilla_option\<close> checks no precondition of its own: the
  strike, the step count and the order of the two dates are looked at by nobody before the
  Black process is built. When the library accepts the two dates as dates, the call sets
  the evaluation date and constructs the Black process from the forward, the curve and
  the surface as given, whatever the strike, the step count and the dates are; it can
  fail only after that, and only with a \<open>RuntimeError\<close> raised by the library or, for an
  AMERICAN option, with the \<open>TypeError\<close> of \<open>int(None)\<close> or the \<open>OverflowError\<close> of a
  step count below zero or of 2 to the power 64 and more. The one failure before the
  process is that of \<open>ql.Date\<close>: when the library refuses the evaluation date the call
  fails with nothing changed, and when it refuses the expiry date the call fails with the
  evaluation date set and nothing built. A failure returns no frame.
\<close>

theorem comdty_vanilla_option_no_precondition:
  "(rejects L (Obj_date (Date_of evaluation_date)) = None \<and>
    rejects L (Obj_date (Date_of expiry_date)) = None \<longrightarrow>
      (\<exists>rest.
         events (snd (comdty_vanilla_option L evaluation_date expiry_date forward_price
                        strike_price option_type exercise_type steps volatility yield_curve w)) =
           events w @
           New_BlackProcess \<lparr>x0 = forward_price, riskFreeRate = yield_curve,
                              blackVolatility = volatility\<rparr> # rest) \<and>
      evaluationDate (snd (comdty_vanilla_option L evaluation_date expiry_date forward_price
                        strike_price option_type exercise_type steps volatility yield_curve w)) =
        Date_of evaluation_date \<and>
      (case fst (comdty_vanilla_option L evaluation_date expiry_date forward_price
                        strike_price option_type exercise_type steps volatility yield_curve w) of
         Inl e \<Rightarrow>
           (\<exists>msg. e = RuntimeError msg) \<or>
           (upper exercise_type = ''AMERICAN'' \<and> steps = None \<and> e = TypeError) \<or>
           (upper exercise_type = ''AMERICAN'' \<and>
            (\<exists>n. steps = Some n \<and> (n < 0 \<or> 2 ^ 64 \<le> n)) \<and> e = OverflowError)
       | Inr fr \<Rightarrow> True)) \<and>
   (\<forall>msg. rejects L (Obj_date (Date_of evaluation_date)) = Some msg \<longrightarrow>
      comdty_vanilla_option L evaluation_date expiry_date forward_price strike_price
        option_type exercise_type steps volatility yield_curve w =
      (Inl (RuntimeError msg), w)) \<and>
   (\<forall>msg. rejects L (Obj_date (Date_of evaluation_date)) = None \<and>
      rejects L (Obj_date (Date_of expiry_date)) = Some msg \<longrightarrow>
      comdty_vanilla_option L evaluation_date expiry_date forward_price strike_price
        option_type exercise_type steps volatility yield_curve w =
      (Inl (RuntimeError msg), w\<lparr>evaluationDate := Date_of evaluation_date\<rparr>))"
proof (intro conjI impI allI)
  assume "rejects L (Obj_date (Date_of evaluation_date)) = None \<and>
    rejects L (Obj_date (Date_of expiry_date)) = None"
  then have a: "rejects L (Obj_date (Date_of evaluation_date)) = None"
    and b: "rejects L (Obj_date (Date_of expiry_date)) = None"
    by simp_all
  note * = comdty_vanilla_option_after_process [OF a b, of forward_price strike_price
      option_type exercise_type steps volatility yield_curve w]
  from * show "\<exists>rest.
         events (snd (comdty_vanilla_option L evaluation_date expiry_date forward_price
                        strike_price option_type exercise_type steps volatility yield_curve w)) =
           events w @
           New_BlackProcess \<lparr>x0 = forward_price, riskFreeRate = yield_curve,
                              blackVolatility = volatility\<rparr> # rest"
    by (rule conjunct1)
  from * show "evaluationDate (snd (comdty_vanilla_option L evaluation_date expiry_date
        forward_price strike_price option_type exercise_type steps volatility yield_curve w)) =
        Date_of evaluation_date"
    by (rule conjunct2 [THEN conjunct1])
  from * show "case fst (comdty_vanilla_option L evaluation_date expiry_date forward_price
                        strike_price option_type exercise_type steps volatility yield_curve w) of
         Inl e \<Rightarrow>
           (\<exists>msg. e = RuntimeError msg) \<or>
           (upper exercise_type = ''AMERICAN'' \<and> steps = None \<and> e = TypeError) \<or>
           (upper exercise_type = ''AMERICAN'' \<and>
            (\<exists>n. steps = Some n \<and> (n < 0 \<or> 2 ^ 64 \<le> n)) \<and> e = OverflowError)
       | Inr fr \<Rightarrow> True"
    by (rule conjunct2 [THEN conjunct2])
next
  fix msg
  assume "rejects L (Obj_date (Date_of evaluation_date)) = Some msg"
  then show "comdty_vanilla_option L evaluation_date expiry_date forward_price strike_price
        option_type exercise_type steps volatility yield_curve w =
      (Inl (RuntimeError msg), w)"
    by (rule comdty_vanilla_option_date_refused)
next
  fix msg
  assume "rejects L (Obj_date (Date_of evaluation_date)) = None \<and>
      rejects L (Obj_date (Date_of expiry_date)) = Some msg"
  then show "comdty_vanilla_option L evaluation_date expiry_date forward_price strike_price
        option_type exercise_type steps volatility yield_curve w =
      (Inl (RuntimeError msg), w\<lparr>evaluationDate := Date_of evaluation_date\<rparr>)"
    by (simp add: comdty_vanilla_option_expiry_refused)
qed

text \<open>
  C8 as stated fails at a step count of 0 for an AMERICAN option: the library refuses to
  build the engine, and by then the Black process has been constructed.
\<close>

theorem comdty_vanilla_option_no_precondition_counterexample:
  "comdty_vanilla_option demo jan1 jul1 (Fin 100) (Fin 100) ''CALL'' ''AMERICAN'' (Some 0)
     flat_vol flat_curve w0 =
   (Inl (RuntimeError ''at least 2 time steps required''),
    \<lparr>evaluationDate = Date 1 1 2025, seed_source = 0,
      events = [New_BlackProcess given_process]\<rparr>)"
  by (simp add: option_simps run_simps demo_simps given_process_def)

text \<open>
  The three cases of the statement on the small instance. A call that violates all three
  conditions of the claim at once (strike -5, expiry on the evaluation date, AMERICAN with
  no step count) builds the process and then fails in \<open>int(None)\<close>; an evaluation date
  in the year 1800 fails in \<open>ql.Date\<close> and changes nothing; an expiry in the year 1800
  fails there after the evaluation date was set.
\<close>

theorem comdty_vanilla_option_no_precondition_witness:
  "rejects demo (Obj_date (Date_of jan1)) = None \<and>
   comdty_vanilla_option demo jan1 jan1 (Fin 100) (Fin (- 5)) ''CALL'' ''AMERICAN'' None
     flat_vol flat_curve w0 =
   (Inl TypeError,
    \<lparr>evaluationDate = Date 1 1 2025, seed_source = 0,
      events = [New_BlackProcess given_process]\<rparr>) \<and>
   evaluationDate (snd (comdty_vanilla_option demo jan1 jan1 (Fin 100) (Fin (- 5)) ''CALL''
     ''AMERICAN'' None flat_vol flat_curve w0)) = Date 1 1 2025 \<and>
   rejects demo (Obj_date (Date_of \<lparr>year = 1800, month = 1, day = 1\<rparr>)) =
     Some ''year out of bound'' \<and>
   comdty_vanilla_option demo \<lparr>year = 1800, month = 1, day = 1\<rparr> jul1 (Fin 100) (Fin 100)
     ''CALL'' ''EUROPEAN'' None flat_vol flat_curve w0 =
   (Inl (RuntimeError ''year out of bound''), w0) \<and>
   comdty_vanilla_option demo jan1 \<lparr>year = 1800, month = 1, day = 1\<rparr> (Fin 100) (Fin 100)
     ''CALL'' ''EUROPEAN'' None flat_vol flat_curve w0 =
   (Inl (RuntimeError ''year out of bound''), w0\<lparr>evaluationDate := Date 1 1 2025\<rparr>)"
proof -
  let ?old = "\<lparr>year = 1800, month = 1, day = 1\<rparr>"
  have a: "rejects demo (Obj_date (Date_of jan1)) = None"
    by (simp add: demo_simps Date_of_def)
  have b: "rejects demo (Obj_date (Date_of ?old)) = Some ''year out of bound''"
    by (simp add: demo_simps Date_of_def)
  have run: "comdty_vanilla_option demo jan1 jan1 (Fin 100) (Fin (- 5)) ''CALL'' ''AMERICAN'' None
     flat_vol flat_curve w0 =
   (Inl TypeError,
    \<lparr>evaluationDate = Date 1 1 2025, seed_source = 0,
      events = [New_BlackProcess given_process]\<rparr>)"
    by (simp add: option_simps run_simps demo_simps given_process_def)
  have today: "Date_of jan1 = Date 1 1 2025"
    by (simp add: Date_of_def jan1_def)
  note T1 = comdty_vanilla_option_no_precondition
    [where L = demo and evaluation_date = ?old and expiry_date = jul1 and w = w0
      and forward_price = "Fin 100" and strike_price = "Fin 100" and option_type = "''CALL''"
      and exercise_type = "''EUROPEAN''" and steps = None and volatility = flat_vol
      and yield_curve = flat_curve]
  note T2 = comdty_vanilla_option_no_precondition
    [where L = demo and evaluation_date = jan1 and expiry_date = ?old and w = w0
      and forward_price = "Fin 100" and strike_price = "Fin 100" and option_type = "''CALL''"
      and exercise_type = "''EUROPEAN''" and steps = None and volatility = flat_vol
      and yield_curve = flat_curve]
  note T0 = comdty_vanilla_option_no_precondition
    [where L = demo and evaluation_date = jan1 and expiry_date = jan1 and w = w0
      and forward_price = "Fin 100" and strike_price = "Fin (- 5)" and option_type = "''CALL''"
      and exercise_type = "''AMERICAN''" and steps = None and volatility = flat_vol
      and yield_curve = flat_curve]
  from T0 a have e: "evaluationDate (snd (comdty_vanilla_option demo jan1 jan1 (Fin 100)
     (Fin (- 5)) ''CALL'' ''AMERICAN'' None flat_vol flat_curve w0)) = Date 1 1 2025"
    unfolding today by blast
  from T1 b have c: "comdty_vanilla_option demo ?old jul1 (Fin 100) (Fin 100)
     ''CALL'' ''EUROPEAN'' None flat_vol flat_curve w0 =
   (Inl (RuntimeError ''year out of bound''), w0)"
    by blast
  from T2 a b have d: "comdty_vanilla_option demo jan1 ?old (Fin 100) (Fin 100)
     ''CALL'' ''EUROPEAN'' None flat_vol flat_curve w0 =
   (Inl (RuntimeError ''year out of bound''), w0\<lparr>evaluationDate := Date 1 1 2025\<rparr>)"
    unfolding today by blast
  from a b run c d e show ?thesis
    by simp
qed

section \<open>C5: a delta outside the domain\<close>

lemma fmul_NaN [simp]: "fmul x NaN = NaN"
  by (cases x) simp_all

lemma fadd_NaN [simp]: "fadd x NaN = NaN"
  by (cases x) simp_all

lemma np_divide_NaN [simp]: "np_divide x NaN = NaN"
  by (cases x) simp_all

lemma fsub_NaN_left [simp]: "fsub NaN y = NaN"
  by (simp add: fsub_def)

lemma norm_ppf_outside:
  assumes "a \<notin> Fin ` {0<..<1}"
  shows "norm_ppf L a = (if a = Fin 0 then NInf else if a = Fin 1 then PInf else NaN)"
proof (cases a)
  case (Fin q)
  with assms have "\<not> (0 < q \<and> q < 1)"
    by (auto simp: image_iff)
  with Fin show ?thesis by auto
qed simp_all

lemma strike_of_NaN:
  "np_divide F (np_exp (fsub (fmul x NaN) y)) = NaN"
  by simp

lemma concat_axis0_world: "snd (concat_axis0 fs w) = w"
  by (simp add: concat_axis0_def ret_def raise_def split: list.splits)

lemma european_events:
  assumes "upper et \<noteq> ''AMERICAN''"
    and "rejects L (Obj_date (Date_of ev)) = None"
    and "rejects L (Obj_date (Date_of ex)) = None"
  shows "\<exists>rest. events (snd (comdty_vanilla_option L ev ex F K ot et steps vol yc w)) =
     events w @
     [New_BlackProcess \<lparr>x0 = F, riskFreeRate = yc, blackVolatility = vol\<rparr>,
      Calculate G_vega (PlainVanillaPayoff (if upper ot = ''CALL'' then Call else Put) K)
        (EuropeanExercise (Date_of ex))
        (AnalyticEuropeanEngine \<lparr>x0 = F, riskFreeRate = yc, blackVolatility = vol\<rparr>)] @ rest"
proof -
  let ?p = "\<lparr>x0 = F, riskFreeRate = yc, blackVolatility = vol\<rparr>"
  let ?pay = "PlainVanillaPayoff (if upper ot = ''CALL'' then Call else Put) K"
  let ?x = "EuropeanExercise (Date_of ex)"
  let ?opt = "setPricingEngine (VanillaOption ?pay ?x) (AnalyticEuropeanEngine ?p)"
  let ?w2 = "w\<lparr>evaluationDate := Date_of ev,
      events := events w @ [New_BlackProcess ?p, Calculate G_vega ?pay ?x
        (AnalyticEuropeanEngine ?p)]\<rparr>"
  show ?thesis
  proof (cases "calculate L (Date_of ev) G_vega (AnalyticEuropeanEngine ?p) ?pay ?x")
    case (Inl msg)
    with assms show ?thesis
      by (simp add: comdty_vanilla_option_def Let_def py_to_ql_date_ok py_bind_def result_of_run
            VanillaOption_def ret_def)
  next
    case (Inr v)
    have "quiet (\<lambda>e. \<exists>msg. e = RuntimeError msg)
        (py_bind (result_of L G_rho ?opt) (\<lambda>option_rho. result_frame L ?opt v option_rho ot))"
      by (intro quiet_bind quiet_result_of quiet_result_frame) simp_all
    from quietD(1) [OF this, of ?w2]
    have "\<exists>rest. events (snd (py_bind (result_of L G_rho ?opt) (\<lambda>option_rho.
        result_frame L ?opt v option_rho ot) ?w2)) = events ?w2 @ rest" .
    with Inr assms show ?thesis
      by (simp add: comdty_vanilla_option_def Let_def py_to_ql_date_ok ret_def
            py_bind_def [of "\<lambda>w. (Inr _, w)"]
            py_bind_def [of "set_evaluationDate _"]
            py_bind_def [of "BlackProcess _ _ _"] py_bind_def [of "result_of _ G_vega _"]
            result_of_run VanillaOption_def)
  qed
qed

lemma european_errors:
  assumes "upper et \<noteq> ''AMERICAN''"
    and "rejects L (Obj_date (Date_of ev)) = None"
    and "rejects L (Obj_date (Date_of ex)) = None"
    and "comdty_vanilla_option L ev ex F K ot et steps vol yc w = (Inl e, w')"
  shows "\<exists>msg. e = RuntimeError msg"
  using comdty_vanilla_option_after_process [OF assms(2,3), of F K ot et steps vol yc w] assms(1,4)
  by auto

lemma comdty_vanilla_option_delta_outside:
  assumes "rejects L (Obj_date (Date_of ex)) = None"
    and "rejects L (Obj_date (Date_of ev)) = None"
    and "t = yearFraction L (yc_dayCounter yc) (Date_of ev) (Date_of ex)"
    and "zeroRate L yc (Date_of ex) (yc_dayCounter yc) Continuous Annual = Inr r"
    and "blackVol_time L vol t F = Inr v"
    and "a = (if upper ot = ''CALL'' then fmul delta (np_exp (fmul r t))
              else fadd (fmul delta (np_exp (fmul r t))) (Fin 1))"
    and "a \<notin> Fin ` {0<..<1}"
    and "d1 = (if a = Fin 0 then NInf else if a = Fin 1 then PInf else NaN)"
    and "strike = np_divide F
           (np_exp (fsub (fmul (fmul v (np_sqrt t)) d1) (fmul (fmul (Fin (1 / 2)) (py_pow2 v)) t)))"
  shows "comdty_vanilla_option_delta L ev ex F delta ot vol yc =
     py_bind (comdty_vanilla_option L ev ex F strike ot ''EUROPEAN'' None vol yc)
       (\<lambda>option_frame. concat_axis0
          [option_frame,
           DataFrame [d1, r, v, t, strike] ot
             [''d1'', ''riskfree_rate'', ''volatility_atm'', ''years_to_maturity'',
              ''strike_price'']])"
proof -
  have ppf: "norm_ppf L a = d1"
    unfolding assms(8) by (rule norm_ppf_outside [OF assms(7)])
  show ?thesis
  proof (cases "upper ot = ''CALL''")
    case True
    with assms(6) ppf have "norm_ppf L (fmul delta (np_exp (fmul r t))) = d1"
      by simp
    with True assms(4,5) show ?thesis
      unfolding comdty_vanilla_option_delta_def Let_def py_to_ql_date_ok [OF assms(1)]
        py_to_ql_date_ok [OF assms(2)] py_bind_ret assms(3) [symmetric] assms(9)
      by simp
  next
    case False
    with assms(6) ppf have "norm_ppf L (fadd (fmul delta (np_exp (fmul r t))) (Fin 1)) = d1"
      by simp
    with False assms(4,5) show ?thesis
      unfolding comdty_vanilla_option_delta_def Let_def py_to_ql_date_ok [OF assms(1)]
        py_to_ql_date_ok [OF assms(2)] py_bind_ret assms(3) [symmetric] assms(9)
      by simp
  qed
qed

text \<open>
  C5 as the code has it. Let \<open>a\<close> be the argument handed to \<open>norm.ppf\<close>:
  \<open>delta * exp(r T)\<close> for a CALL, \<open>delta * exp(r T) + 1\<close> otherwise, with \<open>r\<close> and the
  volatility \<open>v\<close> answered by the library and both dates accepted. For every \<open>a\<close> that
  is not a number strictly between 0 and 1, \<open>comdty_vanilla_option_delta\<close> makes no
  domain check and raises nothing of its own: \<open>d1\<close> is minus infinity at 0, plus
  infinity at 1 and nan everywhere else; the strike is computed from that \<open>d1\<close> (it is
  nan whenever \<open>a\<close> is outside the closed interval); the function is the EUROPEAN pricing
  at that strike followed by the five extra rows, so the Black process is built and the
  library is asked to value the payoff with that strike; a failure, if there is one, is
  the \<open>RuntimeError\<close> of the library, and a frame, if one is returned, carries that
  \<open>d1\<close> and that strike. The delta is not clamped.
\<close>

theorem comdty_vanilla_option_delta_out_of_domain:
  assumes "rejects L (Obj_date (Date_of ex)) = None"
    and "rejects L (Obj_date (Date_of ev)) = None"
    and "t = yearFraction L (yc_dayCounter yc) (Date_of ev) (Date_of ex)"
    and "zeroRate L yc (Date_of ex) (yc_dayCounter yc) Continuous Annual = Inr r"
    and "blackVol_time L vol t F = Inr v"
    and "a = (if upper ot = ''CALL'' then fmul delta (np_exp (fmul r t))
              else fadd (fmul delta (np_exp (fmul r t))) (Fin 1))"
    and "a \<notin> Fin ` {0<..<1}"
    and "d1 = (if a = Fin 0 then NInf else if a = Fin 1 then PInf else NaN)"
    and "strike = np_divide F
           (np_exp (fsub (fmul (fmul v (np_sqrt t)) d1) (fmul (fmul (Fin (1 / 2)) (py_pow2 v)) t)))"
  shows "comdty_vanilla_option_delta L ev ex F delta ot vol yc =
     py_bind (comdty_vanilla_option L ev ex F strike ot ''EUROPEAN'' None vol yc)
       (\<lambda>option_frame. concat_axis0
          [option_frame,
           DataFrame [d1, r, v, t, strike] ot
             [''d1'', ''riskfree_rate'', ''volatility_atm'', ''years_to_maturity'',
              ''strike_price'']]) \<and>
     (\<exists>rest. events (snd (comdty_vanilla_option_delta L ev ex F delta ot vol yc w)) =
        events w @
        [New_BlackProcess \<lparr>x0 = F, riskFreeRate = yc, blackVolatility = vol\<rparr>,
         Calculate G_vega (PlainVanillaPayoff (if upper ot = ''CALL'' then Call else Put) strike)
           (EuropeanExercise (Date_of ex))
           (AnalyticEuropeanEngine \<lparr>x0 = F, riskFreeRate = yc, blackVolatility = vol\<rparr>)] @
        rest) \<and>
     (case fst (comdty_vanilla_option_delta L ev ex F delta ot vol yc w) of
        Inl e \<Rightarrow> \<exists>msg. e = RuntimeError msg
      | Inr fr \<Rightarrow> \<exists>npv dl gm th vg rh.
          fr = \<lparr>index = [''price'', ''delta'', ''gamma'', ''theta'', ''vega'', ''rho'', ''d1'',
                   ''riskfree_rate'', ''volatility_atm'', ''years_to_maturity'',
                   ''strike_price''],
                 columns = [ot],
                 vals = [[npv], [dl], [gm], [th], [vg], [rh], [d1], [r], [v], [t],
                         [strike]]\<rparr>) \<and>
     (a \<notin> Fin ` {0..1} \<longrightarrow> d1 = NaN \<and> strike = NaN)"
proof (intro conjI impI)
  note eq = comdty_vanilla_option_delta_outside [OF assms]
  let ?price = "comdty_vanilla_option L ev ex F strike ot ''EUROPEAN'' None vol yc"
  show "comdty_vanilla_option_delta L ev ex F delta ot vol yc =
     py_bind ?price
       (\<lambda>option_frame. concat_axis0
          [option_frame,
           DataFrame [d1, r, v, t, strike] ot
             [''d1'', ''riskfree_rate'', ''volatility_atm'', ''years_to_maturity'',
              ''strike_price'']])"
    by (rule eq)
  have "snd (comdty_vanilla_option_delta L ev ex F delta ot vol yc w) = snd (?price w)"
    unfolding eq by (rule py_bind_snd_pure) (rule concat_axis0_world)
  with european_events [OF upper_EUROPEAN assms(2,1), of F strike ot None vol yc w]
  show "\<exists>rest. events (snd (comdty_vanilla_option_delta L ev ex F delta ot vol yc w)) =
        events w @
        [New_BlackProcess \<lparr>x0 = F, riskFreeRate = yc, blackVolatility = vol\<rparr>,
         Calculate G_vega (PlainVanillaPayoff (if upper ot = ''CALL'' then Call else Put) strike)
           (EuropeanExercise (Date_of ex))
           (AnalyticEuropeanEngine \<lparr>x0 = F, riskFreeRate = yc, blackVolatility = vol\<rparr>)] @
        rest"
    by simp
  show "case fst (comdty_vanilla_option_delta L ev ex F delta ot vol yc w) of
        Inl e \<Rightarrow> \<exists>msg. e = RuntimeError msg
      | Inr fr \<Rightarrow> \<exists>npv dl gm th vg rh.
          fr = \<lparr>index = [''price'', ''delta'', ''gamma'', ''theta'', ''vega'', ''rho'', ''d1'',
                   ''riskfree_rate'', ''volatility_atm'', ''years_to_maturity'',
                   ''strike_price''],
                 columns = [ot],
                 vals = [[npv], [dl], [gm], [th], [vg], [rh], [d1], [r], [v], [t],
                         [strike]]\<rparr>"
  proof (cases "?price w")
    case (Pair res w1)
    show ?thesis
    proof (cases res)
      case (Inl e)
      with Pair european_errors [OF upper_EUROPEAN assms(2,1), of F strike ot None vol yc w e w1]
      show ?thesis
        unfolding eq by (auto simp: py_bind_def)
    next
      case (Inr option_frame)
      with Pair comdty_vanilla_option_shape [of L ev ex F strike ot "''EUROPEAN''" None vol yc w
          option_frame w1]
      obtain a b c d e g where "option_frame = DataFrame [a, b, c, d, e, g] ot greek_index"
        by auto
      from delta_frames [OF this] Pair Inr show ?thesis
        unfolding eq by (simp add: py_bind_def ret_def)
    qed
  qed
next
  assume out: "a \<notin> Fin ` {0..1}"
  then have "a \<noteq> Fin 0" and "a \<noteq> Fin 1"
    by auto
  then show "d1 = NaN"
    unfolding assms(8) by simp
  then show "strike = NaN"
    unfolding assms(9) by simp
qed

text \<open>
  The statement at the target delta 2 for a CALL under a zero rate, where the argument of
  \<open>norm.ppf\<close> is 2: \<open>d1\<close> and the strike are nan, the nan strike is priced, and the
  error that surfaces is the library's.
\<close>

theorem comdty_vanilla_option_delta_out_of_domain_witness:
  "rejects demo (Obj_date (Date_of jul1)) = None \<and>
   rejects demo (Obj_date (Date_of jan1)) = None \<and>
   Fin (1 / 2) = yearFraction demo (yc_dayCounter zero_curve) (Date_of jan1) (Date_of jul1) \<and>
   zeroRate demo zero_curve (Date_of jul1) (yc_dayCounter zero_curve) Continuous Annual =
     Inr (Fin 0) \<and>
   blackVol_time demo flat_vol (Fin (1 / 2)) (Fin 100) = Inr (Fin (1 / 5)) \<and>
   Fin 2 = (if upper ''CALL'' = ''CALL'' then fmul (Fin 2) (np_exp (fmul (Fin 0) (Fin (1 / 2))))
            else fadd (fmul (Fin 2) (np_exp (fmul (Fin 0) (Fin (1 / 2))))) (Fin 1)) \<and>
   Fin 2 \<notin> Fin ` {0<..<1} \<and>
   comdty_vanilla_option_delta demo jan1 jul1 (Fin 100) (Fin 2) ''CALL'' flat_vol zero_curve =
   py_bind (comdty_vanilla_option demo jan1 jul1 (Fin 100) NaN ''CALL'' ''EUROPEAN'' None
              flat_vol zero_curve)
     (\<lambda>option_frame. concat_axis0
        [option_frame,
         DataFrame [NaN, Fin 0, Fin (1 / 5), Fin (1 / 2), NaN] ''CALL''
           [''d1'', ''riskfree_rate'', ''volatility_atm'', ''years_to_maturity'',
            ''strike_price'']]) \<and>
   comdty_vanilla_option_delta demo jan1 jul1 (Fin 100) (Fin 2) ''CALL'' flat_vol zero_curve w0 =
   (Inl (RuntimeError ''strike must be non-negative''),
    \<lparr>evaluationDate = Date 1 1 2025, seed_source = 0,
      events =
        [New_BlackProcess
           \<lparr>x0 = Fin 100, riskFreeRate = zero_curve, blackVolatility = flat_vol\<rparr>,
         Calculate G_vega (PlainVanillaPayoff Call NaN) (EuropeanExercise (Date 1 7 2025))
           (AnalyticEuropeanEngine
              \<lparr>x0 = Fin 100, riskFreeRate = zero_curve, blackVolatility = flat_vol\<rparr>)]\<rparr>)"
proof -
  have h1: "rejects demo (Obj_date (Date_of jul1)) = None"
    and h2: "rejects demo (Obj_date (Date_of jan1)) = None"
    by (simp_all add: demo_simps Date_of_def)
  have h3: "Fin (1 / 2) =
      yearFraction demo (yc_dayCounter zero_curve) (Date_of jan1) (Date_of jul1)"
    by (simp add: demo_simps zero_curve_def Date_of_def)
  have h4: "zeroRate demo zero_curve (Date_of jul1) (yc_dayCounter zero_curve) Continuous
      Annual = Inr (Fin 0)"
    by (simp add: demo_simps zero_curve_def)
  have h5: "blackVol_time demo flat_vol (Fin (1 / 2)) (Fin 100) = Inr (Fin (1 / 5))"
    by (simp add: demo_simps)
  have h6: "Fin 2 =
      (if upper ''CALL'' = ''CALL'' then fmul (Fin 2) (np_exp (fmul (Fin 0) (Fin (1 / 2))))
       else fadd (fmul (Fin 2) (np_exp (fmul (Fin 0) (Fin (1 / 2))))) (Fin 1))"
    by (simp add: upper_def upper_char_def)
  have h7: "Fin 2 \<notin> Fin ` {0<..<1}"
    by (simp add: image_iff)
  have h8: "NaN = (if Fin 2 = Fin 0 then NInf else if Fin 2 = Fin 1 then PInf else NaN)"
    by simp
  have h9: "NaN = np_divide (Fin 100)
      (np_exp (fsub (fmul (fmul (Fin (1 / 5)) (np_sqrt (Fin (1 / 2)))) NaN)
                 (fmul (fmul (Fin (1 / 2)) (py_pow2 (Fin (1 / 5)))) (Fin (1 / 2)))))"
    by simp
  note T = comdty_vanilla_option_delta_out_of_domain [OF h1 h2 h3 h4 h5 h6 h7 h8 h9, of w0]
  have run: "comdty_vanilla_option_delta demo jan1 jul1 (Fin 100) (Fin 2) ''CALL'' flat_vol
      zero_curve w0 =
   (Inl (RuntimeError ''strike must be non-negative''),
    \<lparr>evaluationDate = Date 1 1 2025, seed_source = 0,
      events =
        [New_BlackProcess
           \<lparr>x0 = Fin 100, riskFreeRate = zero_curve, blackVolatility = flat_vol\<rparr>,
         Calculate G_vega (PlainVanillaPayoff Call NaN) (EuropeanExercise (Date 1 7 2025))
           (AnalyticEuropeanEngine
              \<lparr>x0 = Fin 100, riskFreeRate = zero_curve, blackVolatility = flat_vol\<rparr>)]\<rparr>)"
    unfolding T [THEN conjunct1]
    by (simp add: option_simps run_simps demo_simps frame_simps zero_curve_def)
  from h1 h2 h3 h4 h5 h6 h7 T [THEN conjunct1] run show ?thesis
    by blast
qed

text \<open>
  C5 as stated fails at the target delta 0 for a PUT, where the argument of \<open>norm.ppf\<close>
  is 1, outside (0, 1): no failure is reported; \<open>d1\<close> is plus infinity, the strike is
  0, and a frame is returned.
\<close>

theorem comdty_vanilla_option_delta_out_of_domain_counterexample:
  "fst (comdty_vanilla_option_delta demo jan1 jul1 (Fin 100) (Fin 0) ''PUT'' flat_vol zero_curve
          w0) =
   Inr \<lparr>index = [''price'', ''delta'', ''gamma'', ''theta'', ''vega'', ''rho'', ''d1'',
                  ''riskfree_rate'', ''volatility_atm'', ''years_to_maturity'', ''strike_price''],
         columns = [''PUT''],
         vals = [[Fin (1 / 10)], [Fin (- (1 / 2))], [Fin 0], [Fin (- (1 / 5))], [Fin (1 / 2)],
                 [Fin (- (1 / 20))], [PInf], [Fin 0], [Fin (1 / 5)], [Fin (1 / 2)], [Fin 0]]\<rparr>"
  by (simp add: comdty_vanilla_option_delta_def option_simps run_simps demo_simps frame_simps
        zero_curve_def)

section \<open>C6 and C9: the calendar spread\<close>

lemma draw_paths_run:
  assumes "\<And>i. k \<le> i \<Longrightarrow> i < k + n \<Longrightarrow>
             terminal (multipath L gen i) 0 = Inr (a i) \<and>
             terminal (multipath L gen i) 1 = Inr (b i)"
  shows "draw_paths L gen n k (cl, cs) = Inr (cl @ map a [k..<k + n], cs @ map b [k..<k + n])"
  using assms
proof (induction n arbitrary: k cl cs)
  case 0
  then show ?case by simp
next
  case (Suc n)
  have here: "terminal (multipath L gen k) 0 = Inr (a k)"
    "terminal (multipath L gen k) 1 = Inr (b k)"
    using Suc.prems [of k] by simp_all
  have "draw_paths L gen n (Suc k) (cl @ [a k], cs @ [b k]) =
      Inr ((cl @ [a k]) @ map a [Suc k..<Suc k + n], (cs @ [b k]) @ map b [Suc k..<Suc k + n])"
    by (rule Suc.IH) (use Suc.prems in simp)
  moreover have "[k..<k + Suc n] = k # [Suc k..<Suc k + n]"
    by (simp add: upt_rec)
  ultimately show ?case
    using here by (simp add: Let_def del: upt_Suc)
qed

lemma foldl_fadd_Fin: "foldl fadd (Fin s) (map Fin xs) = Fin (s + sum_list xs)"
  by (induction xs arbitrary: s) (simp_all add: add.assoc)

lemma np_mean_Fin:
  assumes "xs \<noteq> []"
  shows "np_mean (map Fin xs) = Fin (sum_list xs / real (length xs))"
  using assms by (simp add: np_mean_def foldl_fadd_Fin)

lemma np_mean_empty: "np_mean [] = NaN"
  by (simp add: np_mean_def)

lemma sum_list_upt: "sum_list (map f [0..<n]) = (\<Sum>k<n. f k)"
  by (simp add: interv_sum_list_conv_sum_set_nat atLeast0LessThan)

lemma map2_maps: "map2 f (map a xs) (map b xs) = map (\<lambda>i. f (a i) (b i)) xs"
  by (induction xs) simp_all

lemma fsub_Fin: "fsub (Fin a) (Fin b) = Fin (a - b)"
  by (simp add: fsub_def)

lemma mean_payoff_finite:
  assumes "0 < n"
  shows "np_mean (map (\<lambda>i. np_clip_min0 (Fin (g i))) [0..<n]) =
         Fin ((\<Sum>i<n. max (g i) 0) / real n)"
proof -
  have "map (\<lambda>i. np_clip_min0 (Fin (g i))) [0..<n] = map Fin (map (\<lambda>i. max (g i) 0) [0..<n])"
    by simp
  moreover have "map (\<lambda>i. max (g i) 0) [0..<n] \<noteq> []"
    using assms by simp
  ultimately show ?thesis
    using np_mean_Fin [of "map (\<lambda>i. max (g i) 0) [0..<n]"]
    by (simp add: sum_list_upt del: map_map)
qed

text \<open>
  The date \<open>np.min\<close> picks is the nearer expiry: the one of the two that neither is
  before.
\<close>

lemma date_min_nearer:
  assumes "near = a \<or> near = b"
    and "\<not> calendar_before a near" and "\<not> calendar_before b near"
  shows "date_min a b = near"
  using assms by (cases a; cases b; cases near) (auto simp: date_min_def)

lemma calendar_spread_run:
  assumes "rejects L (Obj_date (Date_of ev)) = None"
    and "rejects L (Obj_date (Date_of exl)) = None"
    and "rejects L (Obj_date (Date_of exs)) = None"
    and "blackVol L vol (Date_of exl) F = Inr vl"
    and "blackVol L vol (Date_of exs) F = Inr vs"
    and "zeroRate L yc (Date_of exl) (yc_dayCounter yc) Continuous NoFrequency = Inr rl"
    and "zeroRate L yc (Date_of exs) (yc_dayCounter yc) Continuous NoFrequency = Inr rs"
    and "t = yearFraction L (yc_dayCounter yc) (Date_of ev)
               (date_min (Date_of exl) (Date_of exs))"
    and "gen = calendar_generator (calendar_array (Date_of ev) F corr vol yc vl vs rl rs) t
                 (seed_source w)"
    and "rejects L (Obj_array (calendar_array (Date_of ev) F corr vol yc vl vs rl rs)) = None"
    and "rejects L (Obj_grid (TimeGrid t 365)) = None"
    and "rejects L (Obj_generator gen) = None"
    and "\<forall>i<nat paths.
           terminal (multipath L gen i) 0 = Inr (a i) \<and>
           terminal (multipath L gen i) 1 = Inr (b i)"
  shows "fst (comdty_vanilla_option_calendar_spread L ev exl exs F K ot corr vol yc paths w) =
     Inr (DataFrame
            [fmul (np_mean (map (\<lambda>i. np_clip_min0
                     (if upper ot = ''CALL'' then fsub (fsub (a i) (b i)) K
                      else fsub K (fsub (a i) (b i)))) [0..<nat paths]))
               (np_exp (fmul (fneg (if date_min (Date_of exl) (Date_of exs) = Date_of exl
                                    then rl else rs)) t)),
             np_mean (map (\<lambda>i. np_clip_min0
                     (if upper ot = ''CALL'' then fsub (fsub (a i) (b i)) K
                      else fsub K (fsub (a i) (b i)))) [0..<nat paths]),
             rl, rs, vl, vs]
            ot
            [''price'', ''payoff'', ''risk_free_rate_long'', ''risk_free_rate_short'',
             ''volatility_long'', ''volatility_short''])"
proof -
  have draws: "draw_paths L gen (nat paths) 0 ([], []) =
      Inr (map a [0..<nat paths], map b [0..<nat paths])"
    using draw_paths_run [of 0 "nat paths" L gen a b "[]" "[]"] assms(13) by simp
  show ?thesis
    using assms(4-7,10-12) draws
    unfolding comdty_vanilla_option_calendar_spread_def Let_def
      py_to_ql_date_ok [OF assms(1)] py_to_ql_date_ok [OF assms(2)]
      py_to_ql_date_ok [OF assms(3)] py_bind_ret assms(9) assms(8)
      calendar_generator_def calendar_array_def calendar_process_def
    by (simp add: py_bind_def construct_ok UniformRandomGenerator_def lift_def ret_def
          map2_maps comp_def)
qed

text \<open>
  C6. Take a call whose three dates the library accepts, whose two volatilities and two
  zero rates it answers, and whose three library objects (the process array, the time
  grid, the path generator) it accepts. Let \<open>near\<close> be the nearer of the two expiries:
  one of the two, with neither of them before it in the calendar; let \<open>r\<close> be the
  continuously compounded zero rate the curve answers at \<open>near\<close> and \<open>t\<close> the year
  fraction from the evaluation date to \<open>near\<close>, both finite. With \<open>n = int(paths) > 0\<close>
  paths whose terminal values \<open>long k\<close> and \<open>short k\<close> and whose strike are finite, the
  call returns the frame whose payoff row is the mean over the paths of
  \<open>max(long k - short k - strike, 0)\<close> for a CALL and of
  \<open>max(strike - (long k - short k), 0)\<close> otherwise, and whose price row is that payoff
  times \<open>exp(- r t)\<close>.
\<close>

theorem comdty_vanilla_option_calendar_spread_payoff:
  assumes "rejects L (Obj_date (Date_of ev)) = None"
    and "rejects L (Obj_date (Date_of exl)) = None"
    and "rejects L (Obj_date (Date_of exs)) = None"
    and "blackVol L vol (Date_of exl) F = Inr vl"
    and "blackVol L vol (Date_of exs) F = Inr vs"
    and "zeroRate L yc (Date_of exl) (yc_dayCounter yc) Continuous NoFrequency = Inr rl"
    and "zeroRate L yc (Date_of exs) (yc_dayCounter yc) Continuous NoFrequency = Inr rs"
    and "near = Date_of exl \<or> near = Date_of exs"
    and "\<not> calendar_before (Date_of exl) near"
    and "\<not> calendar_before (Date_of exs) near"
    and "zeroRate L yc near (yc_dayCounter yc) Continuous NoFrequency = Inr (Fin r)"
    and "yearFraction L (yc_dayCounter yc) (Date_of ev) near = Fin t"
    and "gen = calendar_generator (calendar_array (Date_of ev) F corr vol yc vl vs rl rs) (Fin t)
                 (seed_source w)"
    and "rejects L (Obj_array (calendar_array (Date_of ev) F corr vol yc vl vs rl rs)) = None"
    and "rejects L (Obj_grid (TimeGrid (Fin t) 365)) = None"
    and "rejects L (Obj_generator gen) = None"
    and "n = nat paths" and "0 < n"
    and "\<forall>k<n.
           terminal (multipath L gen k) 0 = Inr (Fin (long k)) \<and>
           terminal (multipath L gen k) 1 = Inr (Fin (short k))"
    and "payoff = (if upper ot = ''CALL''
                   then (\<Sum>k<n. max (long k - short k - strike) 0) / real n
                   else (\<Sum>k<n. max (strike - (long k - short k)) 0) / real n)"
  shows "fst (comdty_vanilla_option_calendar_spread L ev exl exs F (Fin strike) ot corr vol yc
               paths w) =
     Inr (DataFrame
            [Fin (payoff * exp (- r * t)), Fin payoff, rl, rs, vl, vs]
            ot
            [''price'', ''payoff'', ''risk_free_rate_long'', ''risk_free_rate_short'',
             ''volatility_long'', ''volatility_short''])"
proof -
  have near: "date_min (Date_of exl) (Date_of exs) = near"
    by (rule date_min_nearer [OF assms(8,9,10)])
  have rate: "(if date_min (Date_of exl) (Date_of exs) = Date_of exl then rl else rs) = Fin r"
  proof (cases "near = Date_of exl")
    case True
    with assms(6,11) near show ?thesis by simp
  next
    case False
    with assms(8) have "near = Date_of exs" by simp
    with False assms(7,11) near show ?thesis by simp
  qed
  have time: "Fin t = yearFraction L (yc_dayCounter yc) (Date_of ev)
      (date_min (Date_of exl) (Date_of exs))"
    unfolding near assms(12) by (rule refl)
  have draws: "\<forall>i<nat paths.
           terminal (multipath L gen i) 0 = Inr (Fin (long i)) \<and>
           terminal (multipath L gen i) 1 = Inr (Fin (short i))"
    using assms(17,19) by simp
  have mean: "np_mean (map (\<lambda>i. np_clip_min0
           (if upper ot = ''CALL'' then fsub (fsub (Fin (long i)) (Fin (short i))) (Fin strike)
            else fsub (Fin strike) (fsub (Fin (long i)) (Fin (short i))))) [0..<nat paths]) =
         Fin payoff"
  proof (cases "upper ot = ''CALL''")
    case True
    have "np_mean (map (\<lambda>i. np_clip_min0
           (if upper ot = ''CALL'' then fsub (fsub (Fin (long i)) (Fin (short i))) (Fin strike)
            else fsub (Fin strike) (fsub (Fin (long i)) (Fin (short i))))) [0..<nat paths]) =
        np_mean (map (\<lambda>i. np_clip_min0 (Fin (long i - short i - strike))) [0..<n])"
      by (simp only: fsub_Fin True if_True assms(17) simp_thms)
    also have "\<dots> = Fin ((\<Sum>k<n. max (long k - short k - strike) 0) / real n)"
      by (rule mean_payoff_finite [OF assms(18)])
    finally show ?thesis
      using True assms(20) by simp
  next
    case False
    have "np_mean (map (\<lambda>i. np_clip_min0
           (if upper ot = ''CALL'' then fsub (fsub (Fin (long i)) (Fin (short i))) (Fin strike)
            else fsub (Fin strike) (fsub (Fin (long i)) (Fin (short i))))) [0..<nat paths]) =
        np_mean (map (\<lambda>i. np_clip_min0 (Fin (strike - (long i - short i)))) [0..<n])"
      by (simp only: fsub_Fin False if_False assms(17) simp_thms)
    also have "\<dots> = Fin ((\<Sum>k<n. max (strike - (long k - short k)) 0) / real n)"
      by (rule mean_payoff_finite [OF assms(18)])
    finally show ?thesis
      using False assms(20) by simp
  qed
  from calendar_spread_run [OF assms(1-7) time assms(13-16) draws,
      where K = "Fin strike" and ot = ot]
  show ?thesis
    unfolding mean rate by simp
qed

lemmas calendar_simps = calendar_generator_def calendar_array_def calendar_process_def
  date_min_def terminal_def node_curve_def

text \<open>
  C6 on the small instance: the long leg expires in July and the short leg in October,
  the curve answers 1/20 at July and 1/10 at October, two paths. The price is discounted
  with the July rate over the half year to July.
\<close>

theorem comdty_vanilla_option_calendar_spread_payoff_witness:
  "rejects demo (Obj_date (Date_of jul1)) = None \<and>
   zeroRate demo node_curve (Date_of jul1) (yc_dayCounter node_curve) Continuous NoFrequency =
     Inr (Fin (1 / 20)) \<and>
   zeroRate demo node_curve (Date_of oct1) (yc_dayCounter node_curve) Continuous NoFrequency =
     Inr (Fin (1 / 10)) \<and>
   \<not> calendar_before (Date_of oct1) (Date 1 7 2025) \<and>
   calendar_before (Date_of jul1) (Date_of oct1) \<and>
   yearFraction demo (yc_dayCounter node_curve) (Date_of jan1) (Date 1 7 2025) = Fin (1 / 2) \<and>
   terminal (multipath demo
     (calendar_generator
        (calendar_array (Date_of jan1) (Fin 100) (Fin (1 / 2)) flat_vol node_curve (Fin (1 / 5))
           (Fin (1 / 5)) (Fin (1 / 20)) (Fin (1 / 10)))
        (Fin (1 / 2)) (seed_source w0)) 1) 0 = Inr (Fin 101) \<and>
   terminal (multipath demo
     (calendar_generator
        (calendar_array (Date_of jan1) (Fin 100) (Fin (1 / 2)) flat_vol node_curve (Fin (1 / 5))
           (Fin (1 / 5)) (Fin (1 / 20)) (Fin (1 / 10)))
        (Fin (1 / 2)) (seed_source w0)) 1) 1 = Inr (Fin 98) \<and>
   (1 / 2 :: real) =
     (if upper ''CALL'' = ''CALL'' then (\<Sum>k<2. max (100 + real k - 98 - 2) 0) / real 2
      else (\<Sum>k<2. max (2 - (100 + real k - 98)) 0) / real 2) \<and>
   fst (comdty_vanilla_option_calendar_spread demo jan1 jul1 oct1 (Fin 100) (Fin 2) ''CALL''
          (Fin (1 / 2)) flat_vol node_curve 2 w0) =
     Inr (DataFrame
            [Fin (1 / 2 * exp (- (1 / 20) * (1 / 2))), Fin (1 / 2), Fin (1 / 20), Fin (1 / 10),
             Fin (1 / 5), Fin (1 / 5)] ''CALL''
            [''price'', ''payoff'', ''risk_free_rate_long'', ''risk_free_rate_short'',
             ''volatility_long'', ''volatility_short''])"
proof -
  let ?gen = "calendar_generator
        (calendar_array (Date_of jan1) (Fin 100) (Fin (1 / 2)) flat_vol node_curve (Fin (1 / 5))
           (Fin (1 / 5)) (Fin (1 / 20)) (Fin (1 / 10)))
        (Fin (1 / 2)) (seed_source w0)"
  note ev = demo_simps Date_of_def calendar_simps
  have d1: "rejects demo (Obj_date (Date_of jan1)) = None"
    and d2: "rejects demo (Obj_date (Date_of jul1)) = None"
    and d3: "rejects demo (Obj_date (Date_of oct1)) = None"
    by (simp_all add: ev)
  have v1: "blackVol demo flat_vol (Date_of jul1) (Fin 100) = Inr (Fin (1 / 5))"
    and v2: "blackVol demo flat_vol (Date_of oct1) (Fin 100) = Inr (Fin (1 / 5))"
    by (simp_all add: ev)
  have r1: "zeroRate demo node_curve (Date_of jul1) (yc_dayCounter node_curve) Continuous
      NoFrequency = Inr (Fin (1 / 20))"
    and r2: "zeroRate demo node_curve (Date_of oct1) (yc_dayCounter node_curve) Continuous
      NoFrequency = Inr (Fin (1 / 10))"
    by (simp_all add: ev)
  have n1: "Date 1 7 2025 = Date_of jul1 \<or> Date 1 7 2025 = Date_of oct1"
    and n2: "\<not> calendar_before (Date_of jul1) (Date 1 7 2025)"
    and n3: "\<not> calendar_before (Date_of oct1) (Date 1 7 2025)"
    and n4: "calendar_before (Date_of jul1) (Date_of oct1)"
    by (simp_all add: ev)
  have r: "zeroRate demo node_curve (Date 1 7 2025) (yc_dayCounter node_curve) Continuous
      NoFrequency = Inr (Fin (1 / 20))"
    by (simp add: ev)
  have t: "yearFraction demo (yc_dayCounter node_curve) (Date_of jan1) (Date 1 7 2025) =
      Fin (1 / 2)"
    by (simp add: ev)
  have o1: "rejects demo (Obj_array (calendar_array (Date_of jan1) (Fin 100) (Fin (1 / 2))
      flat_vol node_curve (Fin (1 / 5)) (Fin (1 / 5)) (Fin (1 / 20)) (Fin (1 / 10)))) = None"
    and o2: "rejects demo (Obj_grid (TimeGrid (Fin (1 / 2)) 365)) = None"
    and o3: "rejects demo (Obj_generator ?gen) = None"
    by (simp_all add: ev)
  have p1: "(2::nat) = nat 2" and p2: "(0::nat) < 2"
    by simp_all
  have p3: "\<forall>k<2. terminal (multipath demo ?gen k) 0 = Inr (Fin (100 + real k)) \<and>
        terminal (multipath demo ?gen k) 1 = Inr (Fin 98)"
    by (simp add: ev)
  have p4: "(1 / 2 :: real) =
     (if upper ''CALL'' = ''CALL'' then (\<Sum>k<2. max (100 + real k - 98 - 2) 0) / real 2
      else (\<Sum>k<2. max (2 - (100 + real k - 98)) 0) / real 2)"
    by (simp add: upper_def upper_char_def lessThan_Suc eval_nat_numeral)
  note T = comdty_vanilla_option_calendar_spread_payoff
    [OF d1 d2 d3 v1 v2 r1 r2 n1 n2 n3 r t refl o1 o2 o3 p1 p2 p3 p4]
  have q1: "terminal (multipath demo ?gen 1) 0 = Inr (Fin 101)"
    and q2: "terminal (multipath demo ?gen 1) 1 = Inr (Fin 98)"
    by (simp_all add: ev)
  from d2 r1 r2 n3 n4 t q1 q2 p4 T show ?thesis
    by blast
qed

text \<open>
  C9 as the code has it. With \<open>paths\<close> equal to 0 (or below), the three dates accepted,
  the two volatilities and the two zero rates answered and the three library objects
  accepted, \<open>comdty_vanilla_option_calendar_spread\<close> does not fail: the loop body never
  runs, the mean of the empty sample is nan, and the frame returned has nan in its price
  and payoff rows, next to the two zero rates and the two volatilities.
\<close>

theorem comdty_vanilla_option_calendar_spread_no_paths:
  assumes "paths \<le> 0"
    and "rejects L (Obj_date (Date_of ev)) = None"
    and "rejects L (Obj_date (Date_of exl)) = None"
    and "rejects L (Obj_date (Date_of exs)) = None"
    and "blackVol L vol (Date_of exl) F = Inr vl"
    and "blackVol L vol (Date_of exs) F = Inr vs"
    and "zeroRate L yc (Date_of exl) (yc_dayCounter yc) Continuous NoFrequency = Inr rl"
    and "zeroRate L yc (Date_of exs) (yc_dayCounter yc) Continuous NoFrequency = Inr rs"
    and "t = yearFraction L (yc_dayCounter yc) (Date_of ev)
               (date_min (Date_of exl) (Date_of exs))"
    and "gen = calendar_generator (calendar_array (Date_of ev) F corr vol yc vl vs rl rs) t
                 (seed_source w)"
    and "rejects L (Obj_array (calendar_array (Date_of ev) F corr vol yc vl vs rl rs)) = None"
    and "rejects L (Obj_grid (TimeGrid t 365)) = None"
    and "rejects L (Obj_generator gen) = None"
  shows "fst (comdty_vanilla_option_calendar_spread L ev exl exs F K ot corr vol yc paths w) =
     Inr (DataFrame [NaN, NaN, rl, rs, vl, vs] ot
            [''price'', ''payoff'', ''risk_free_rate_long'', ''risk_free_rate_short'',
             ''volatility_long'', ''volatility_short''])"
proof -
  have none: "nat paths = 0"
    using assms(1) by simp
  have draws: "\<forall>i<nat paths.
      terminal (multipath L gen i) 0 = Inr NaN \<and> terminal (multipath L gen i) 1 = Inr NaN"
    using none by simp
  from calendar_spread_run [OF assms(2-13) draws, where K = K and ot = ot]
  show ?thesis
    by (simp add: none np_mean_empty)
qed

theorem comdty_vanilla_option_calendar_spread_no_paths_witness:
  "(- 3 :: int) \<le> 0 \<and>
   rejects demo (Obj_date (Date_of oct1)) = None \<and>
   blackVol demo flat_vol (Date_of jul1) (Fin 100) = Inr (Fin (1 / 5)) \<and>
   zeroRate demo flat_curve (Date_of oct1) (yc_dayCounter flat_curve) Continuous NoFrequency =
     Inr (Fin (1 / 20)) \<and>
   rejects demo (Obj_grid (TimeGrid (Fin (1 / 2)) 365)) = None \<and>
   fst (comdty_vanilla_option_calendar_spread demo jan1 jul1 oct1 (Fin 100) (Fin 5) ''PUT''
          (Fin (1 / 2)) flat_vol flat_curve (- 3) w0) =
     Inr (DataFrame [NaN, NaN, Fin (1 / 20), Fin (1 / 20), Fin (1 / 5), Fin (1 / 5)] ''PUT''
            [''price'', ''payoff'', ''risk_free_rate_long'', ''risk_free_rate_short'',
             ''volatility_long'', ''volatility_short''])"
proof -
  note ev = demo_simps Date_of_def calendar_simps
  have h1: "(- 3 :: int) \<le> 0"
    by simp
  have d1: "rejects demo (Obj_date (Date_of jan1)) = None"
    and d2: "rejects demo (Obj_date (Date_of jul1)) = None"
    and d3: "rejects demo (Obj_date (Date_of oct1)) = None"
    by (simp_all add: ev)
  have v1: "blackVol demo flat_vol (Date_of jul1) (Fin 100) = Inr (Fin (1 / 5))"
    and v2: "blackVol demo flat_vol (Date_of oct1) (Fin 100) = Inr (Fin (1 / 5))"
    by (simp_all add: ev)
  have r1: "zeroRate demo flat_curve (Date_of jul1) (yc_dayCounter flat_curve) Continuous
      NoFrequency = Inr (Fin (1 / 20))"
    and r2: "zeroRate demo flat_curve (Date_of oct1) (yc_dayCounter flat_curve) Continuous
      NoFrequency = Inr (Fin (1 / 20))"
    by (simp_all add: ev)
  have t: "Fin (1 / 2) = yearFraction demo (yc_dayCounter flat_curve) (Date_of jan1)
      (date_min (Date_of jul1) (Date_of oct1))"
    by (simp add: ev)
  have o1: "rejects demo (Obj_array (calendar_array (Date_of jan1) (Fin 100) (Fin (1 / 2))
      flat_vol flat_curve (Fin (1 / 5)) (Fin (1 / 5)) (Fin (1 / 20)) (Fin (1 / 20)))) = None"
    and o2: "rejects demo (Obj_grid (TimeGrid (Fin (1 / 2)) 365)) = None"
    and o3: "rejects demo (Obj_generator (calendar_generator
      (calendar_array (Date_of jan1) (Fin 100) (Fin (1 / 2)) flat_vol flat_curve (Fin (1 / 5))
         (Fin (1 / 5)) (Fin (1 / 20)) (Fin (1 / 20)))
      (Fin (1 / 2)) (seed_source w0))) = None"
    by (simp_all add: ev)
  note T = comdty_vanilla_option_calendar_spread_no_paths
    [OF h1 d1 d2 d3 v1 v2 r1 r2 t refl o1 o2 o3, of "Fin 5" "''PUT''"]
  from h1 d3 v1 r2 o2 T show ?thesis
    by blast
qed

text \<open>
  C9 as stated fails at \<open>paths = 0\<close>: the call returns a frame, and its price and payoff
  are nan.
\<close>

theorem comdty_vanilla_option_calendar_spread_no_paths_counterexample:
  "fst (comdty_vanilla_option_calendar_spread demo jan1 oct1 jul1 (Fin 100) (Fin 2) ''CALL''
          (Fin (1 / 2)) flat_vol flat_curve 0 w0) =
     Inr \<lparr>index = [''price'', ''payoff'', ''risk_free_rate_long'', ''risk_free_rate_short'',
                    ''volatility_long'', ''volatility_short''],
           columns = [''CALL''],
           vals = [[NaN], [NaN], [Fin (1 / 20)], [Fin (1 / 20)], [Fin (1 / 5)],
                   [Fin (1 / 5)]]\<rparr>"
  by (simp add: comdty_vanilla_option_calendar_spread_def Let_def run_simps demo_simps
        frame_simps date_min_def np_mean_def upper_def upper_char_def)

end
